theory Spec2Isabelle
  imports Complex_Main "HOL-Library.AList" "HOL-Library.Monad_Syntax"
begin

section \<open>The coagulation cascade simulator (scripts/coagulation\_sim.py)\<close>

text \<open>
  A shallow embedding of the class \<open>CoagulationSimulator\<close>: its species registry, its
  tables, \<open>get_initial_state\<close>, \<open>derivatives\<close> and \<open>simulate\<close>.

  Conventions of the embedding.
  \<^item> A Python \<open>float\<close> (and a numpy \<open>float64\<close>) is a \<^typ>\<open>real\<close> wherever a statement
    is about exact arithmetic: rounding, infinities and NaN are then not modelled. The
    derivative function is written once, for any type of numbers with the operations it
    uses, and is also read at the type \<open>f64\<close> below, whose arithmetic overflows to an
    infinity and has NaN.
  \<^item> A Python \<open>dict\<close> is an association list in insertion order with distinct keys;
    assignment \<open>d[key] = v\<close> overwrites in place or appends.
  \<^item> A raised exception (\<open>KeyError\<close>, \<open>IndexError\<close>, \<open>ValueError\<close>) is the value
    \<^term>\<open>None\<close> of an option type; a normal return is \<^term>\<open>Some\<close>.
  \<^item> The numpy array that \<open>derivatives\<close> receives from its caller lives in a store and
    is passed by address, so that what the function does to its caller's array can be
    stated. Arrays that a function creates and hands back are plain lists.
\<close>

subsection \<open>Dictionaries\<close>

type_synonym ('k, 'v) dict = "('k \<times> 'v) list"

definition dict_getitem :: "('k, 'v) dict \<Rightarrow> 'k \<Rightarrow> 'v option" where
  \<comment> \<open>\<open>d[key]\<close>; \<open>None\<close> is the \<open>KeyError\<close>.\<close>
  "dict_getitem d key = map_of d key"

definition dict_get :: "('k, 'v) dict \<Rightarrow> 'k \<Rightarrow> 'v \<Rightarrow> 'v" where
  \<comment> \<open>\<open>d.get(key, dflt)\<close>\<close>
  "dict_get d key dflt = (case map_of d key of None \<Rightarrow> dflt | Some v \<Rightarrow> v)"

definition dict_contains :: "'k \<Rightarrow> ('k, 'v) dict \<Rightarrow> bool" where
  \<comment> \<open>\<open>key in d\<close>\<close>
  "dict_contains key d = (map_of d key \<noteq> None)"

definition dict_setitem :: "'k \<Rightarrow> 'v \<Rightarrow> ('k, 'v) dict \<Rightarrow> ('k, 'v) dict" where
  \<comment> \<open>\<open>d[key] = v\<close>\<close>
  "dict_setitem key v d = AList.update key v d"

definition dict_merge :: "('k, 'v) dict \<Rightarrow> ('k, 'v) dict \<Rightarrow> ('k, 'v) dict" where
  \<comment> \<open>\<open>{**a, **b}\<close>: the entries of \<open>b\<close> are stored into a copy of \<open>a\<close>, in order.\<close>
  "dict_merge a b = fold (\<lambda>(key, v). dict_setitem key v) b a"

fun for_each :: "'a list \<Rightarrow> ('a \<Rightarrow> 's \<Rightarrow> 's option) \<Rightarrow> 's \<Rightarrow> 's option" where
  \<comment> \<open>A \<open>for\<close> loop whose body updates a state or raises.\<close>
  "for_each [] body s = Some s"
| "for_each (x # xs) body s = (case body x s of None \<Rightarrow> None | Some s' \<Rightarrow> for_each xs body s')"

subsection \<open>numpy arrays\<close>

type_synonym ndarray = "real list"
type_synonym addr = nat
type_synonym store = "ndarray list"

text \<open>The operations on the arrays of a store are those of any type of entries.\<close>

definition np_maximum ::
  "addr \<Rightarrow> 'a::ord \<Rightarrow> 'a list list \<Rightarrow> (addr \<times> 'a list list) option" where
  \<comment> \<open>\<open>np.maximum(a, b)\<close> with a scalar \<open>b\<close>: a fresh array, the argument is only read.
      An address outside the store does not occur in Python; the model returns \<open>None\<close>.\<close>
  "np_maximum a b h =
     (if a < length h then Some (length h, h @ [map (\<lambda>v. max v b) (h ! a)]) else None)"

definition np_zeros :: "nat \<Rightarrow> 'a::zero list list \<Rightarrow> addr \<times> 'a list list" where
  \<comment> \<open>\<open>np.zeros(n)\<close>: a fresh array.\<close>
  "np_zeros n h = (length h, h @ [replicate n 0])"

definition getitem :: "'a list list \<Rightarrow> addr \<Rightarrow> nat \<Rightarrow> 'a option" where
  \<comment> \<open>\<open>a[i]\<close> for \<open>i \<ge> 0\<close>; \<open>None\<close> is the \<open>IndexError\<close>.\<close>
  "getitem h a i = (if a < length h \<and> i < length (h ! a) then Some (h ! a ! i) else None)"

definition setitem :: "addr \<Rightarrow> nat \<Rightarrow> 'a \<Rightarrow> 'a list list \<Rightarrow> 'a list list option" where
  \<comment> \<open>\<open>a[i] = v\<close>, in place; \<open>None\<close> is the \<open>IndexError\<close>.\<close>
  "setitem a i v h =
     (if a < length h \<and> i < length (h ! a) then Some (h[a := (h ! a)[i := v]]) else None)"

definition list_setitem :: "'a list \<Rightarrow> nat \<Rightarrow> 'a \<Rightarrow> 'a list option" where
  \<comment> \<open>\<open>a[i] = v\<close> on an array held by value.\<close>
  "list_setitem a i v = (if i < length a then Some (a[i := v]) else None)"

definition list_getitem :: "'a list \<Rightarrow> nat \<Rightarrow> 'a option" where
  "list_getitem a i = (if i < length a then Some (a ! i) else None)"

definition np_linspace :: "real \<Rightarrow> real \<Rightarrow> int \<Rightarrow> real list option" where
  \<comment> \<open>\<open>np.linspace(start, stop, num)\<close>: \<open>num\<close> evenly spaced samples, both ends included;
      a negative \<open>num\<close> raises \<open>ValueError\<close>.\<close>
  "np_linspace start stop num =
     (if num < 0 then None
      else if num \<le> 1 then Some (replicate (nat num) start)
      else Some (map (\<lambda>i. start + real i * ((stop - start) / real_of_int (num - 1)))
                  [0 ..< nat num]))"

subsection \<open>The simulator object\<close>

definition SPECIES :: "string list" where
  "SPECIES =
    [''TF'', ''VII'', ''TF_VIIa'',
     ''XII'', ''XIIa'', ''XI'', ''XIa'', ''IX'', ''IXa'',
     ''VIII'', ''VIIIa'', ''X'', ''Xa'',
     ''V'', ''Va'', ''II'', ''IIa'',
     ''Fbg'', ''Fibrin'',
     ''XIII'', ''XIIIa'',
     ''AT'', ''TFPI'',
     ''PC'', ''APC'', ''PS'']"

record 'a simulator =
  species_idx :: "(string, nat) dict"
  n_species :: nat
  initial_concentrations :: "(string, 'a) dict"
  k :: "(string, 'a) dict"
  Km :: "(string, 'a) dict"

definition CoagulationSimulator :: "real simulator" where
  \<comment> \<open>\<open>__init__\<close>\<close>
  "CoagulationSimulator = \<lparr>
     species_idx = fold (\<lambda>(i, s). dict_setitem s i) (enumerate 0 SPECIES) [],
     n_species = length SPECIES,
     initial_concentrations =
       [(''TF'', 0.0), (''VII'', 10.0), (''TF_VIIa'', 0.0), (''XII'', 375.0), (''XIIa'', 0.0),
        (''XI'', 30.0), (''XIa'', 0.0), (''IX'', 90.0), (''IXa'', 0.0), (''VIII'', 0.7),
        (''VIIIa'', 0.0), (''X'', 170.0), (''Xa'', 0.0), (''V'', 20.0), (''Va'', 0.0),
        (''II'', 1400.0), (''IIa'', 0.0), (''Fbg'', 9000.0), (''Fibrin'', 0.0),
        (''XIII'', 70.0), (''XIIIa'', 0.0), (''AT'', 3400.0), (''TFPI'', 2.5),
        (''PC'', 65.0), (''APC'', 0.0), (''PS'', 300.0)],
     k =
       [(''tf_viia_on'', 1 / 10 ^ 2), (''tf_viia_off'', 1 / 10 ^ 4),
        (''tfviia_x'', 5 / 10 ^ 4), (''tfviia_ix'', 1 / 10 ^ 4),
        (''xii_auto'', 1 / 10 ^ 5), (''xiia_xi'', 5 / 10 ^ 4), (''xia_ix'', 1 / 10 ^ 3),
        (''tenase_x'', 1.0), (''km_tenase'', 10.0),
        (''ptase_ii'', 10.0), (''km_ptase'', 50.0),
        (''iia_fbg'', 0.1), (''iia_xiii'', 0.05), (''iia_v'', 0.5), (''iia_viii'', 1.0),
        (''iia_xi'', 0.01),
        (''xa_v'', 0.01), (''xa_viii'', 0.005),
        (''xa_ii_basal'', 1 / 10 ^ 4),
        (''at_iia'', 1 / 10 ^ 4), (''at_xa'', 5 / 10 ^ 5), (''at_ixa'', 1 / 10 ^ 5),
        (''at_xia'', 5 / 10 ^ 6), (''tfpi_xa'', 1 / 10 ^ 4), (''tfpi_tfviia'', 5 / 10 ^ 4),
        (''iia_pc'', 1 / 10 ^ 4), (''apc_va'', 5 / 10 ^ 3), (''apc_viiia'', 1 / 10 ^ 2)],
     Km = [(''tenase_x'', 160.0), (''ptase_ii'', 210.0), (''iia_fbg'', 7200.0)] \<rparr>"

subsection \<open>The initial state\<close>

definition get_initial_state ::
  "real simulator \<Rightarrow> (string, real) dict option \<Rightarrow> real list option" where
  "get_initial_state self modifications = do {
     let y0 = replicate (n_species self) 0;
     y0 \<leftarrow> for_each (initial_concentrations self)
       (\<lambda>(species, conc) y0.
          if dict_contains species (species_idx self)
          then dict_getitem (species_idx self) species \<bind> (\<lambda>i. list_setitem y0 i conc)
          else Some y0) y0;
     y0 \<leftarrow> (case modifications of
        None \<Rightarrow> Some y0
      | Some ms \<Rightarrow>
          if ms \<noteq> [] then
            for_each ms
              (\<lambda>(species, conc) y0.
                 if dict_contains species (species_idx self)
                 then dict_getitem (species_idx self) species \<bind> (\<lambda>i. list_setitem y0 i conc)
                 else Some y0) y0
          else Some y0);
     Some y0
   }"

subsection \<open>The derivative function\<close>

text \<open>
  \<open>derivatives(self, t, y, params)\<close>. The argument \<open>y\<close> is the address of the caller's
  array; the result is the address of the array \<open>dydt\<close> and the store after the call.
  The first line rebinds the local name \<open>y\<close> to the array that \<open>np.maximum\<close> returns.
  The definition is for any type of numbers that has the operations of the source.
\<close>

definition derivatives ::
  "'a::{zero, one, plus, minus, uminus, times, inverse, ord} simulator \<Rightarrow> 'a \<Rightarrow> addr \<Rightarrow>
   (string, 'a) dict \<Rightarrow> 'a list list \<Rightarrow> (addr \<times> 'a list list) option" where
  "derivatives self t y params h = do {
     (y, h) \<leftarrow> np_maximum y 0 h;

     TF \<leftarrow> dict_getitem (species_idx self) ''TF'' \<bind> getitem h y;
     VII \<leftarrow> dict_getitem (species_idx self) ''VII'' \<bind> getitem h y;
     TF_VIIa \<leftarrow> dict_getitem (species_idx self) ''TF_VIIa'' \<bind> getitem h y;
     XII \<leftarrow> dict_getitem (species_idx self) ''XII'' \<bind> getitem h y;
     XIIa \<leftarrow> dict_getitem (species_idx self) ''XIIa'' \<bind> getitem h y;
     XI \<leftarrow> dict_getitem (species_idx self) ''XI'' \<bind> getitem h y;
     XIa \<leftarrow> dict_getitem (species_idx self) ''XIa'' \<bind> getitem h y;
     IX \<leftarrow> dict_getitem (species_idx self) ''IX'' \<bind> getitem h y;
     IXa \<leftarrow> dict_getitem (species_idx self) ''IXa'' \<bind> getitem h y;
     VIII \<leftarrow> dict_getitem (species_idx self) ''VIII'' \<bind> getitem h y;
     VIIIa \<leftarrow> dict_getitem (species_idx self) ''VIIIa'' \<bind> getitem h y;
     X \<leftarrow> dict_getitem (species_idx self) ''X'' \<bind> getitem h y;
     Xa \<leftarrow> dict_getitem (species_idx self) ''Xa'' \<bind> getitem h y;
     V \<leftarrow> dict_getitem (species_idx self) ''V'' \<bind> getitem h y;
     Va \<leftarrow> dict_getitem (species_idx self) ''Va'' \<bind> getitem h y;
     II \<leftarrow> dict_getitem (species_idx self) ''II'' \<bind> getitem h y;
     IIa \<leftarrow> dict_getitem (species_idx self) ''IIa'' \<bind> getitem h y;
     Fbg \<leftarrow> dict_getitem (species_idx self) ''Fbg'' \<bind> getitem h y;
     Fibrin \<leftarrow> dict_getitem (species_idx self) ''Fibrin'' \<bind> getitem h y;
     XIII \<leftarrow> dict_getitem (species_idx self) ''XIII'' \<bind> getitem h y;
     XIIIa \<leftarrow> dict_getitem (species_idx self) ''XIIIa'' \<bind> getitem h y;
     AT \<leftarrow> dict_getitem (species_idx self) ''AT'' \<bind> getitem h y;
     TFPI \<leftarrow> dict_getitem (species_idx self) ''TFPI'' \<bind> getitem h y;
     PC \<leftarrow> dict_getitem (species_idx self) ''PC'' \<bind> getitem h y;
     APC \<leftarrow> dict_getitem (species_idx self) ''APC'' \<bind> getitem h y;

     let at_factor = dict_get params ''at_factor'' 1;
     let xa_inhibition = dict_get params ''xa_inhibition'' 1;
     let iia_inhibition = dict_get params ''iia_inhibition'' 1;

     r_tfviia_form \<leftarrow> do { c \<leftarrow> dict_getitem (k self) ''tf_viia_on''; Some (c * TF * VII) };
     r_tfviia_diss \<leftarrow> do { c \<leftarrow> dict_getitem (k self) ''tf_viia_off''; Some (c * TF_VIIa) };

     r_tfviia_x \<leftarrow> do { c \<leftarrow> dict_getitem (k self) ''tfviia_x''; Some (c * TF_VIIa * X) };
     r_tfviia_ix \<leftarrow> do { c \<leftarrow> dict_getitem (k self) ''tfviia_ix''; Some (c * TF_VIIa * IX) };

     r_xii_auto \<leftarrow> do { c \<leftarrow> dict_getitem (k self) ''xii_auto''; Some (c * XII) };
     r_xiia_xi \<leftarrow> do { c \<leftarrow> dict_getitem (k self) ''xiia_xi''; Some (c * XIIa * XI) };
     r_xia_ix \<leftarrow> do { c \<leftarrow> dict_getitem (k self) ''xia_ix''; Some (c * XIa * IX) };

     let tenase_activity = IXa * VIIIa / (1 + VIIIa);
     r_tenase_x \<leftarrow> do {
       c \<leftarrow> dict_getitem (k self) ''tenase_x'';
       m \<leftarrow> dict_getitem (Km self) ''tenase_x'';
       Some (c * tenase_activity * X / (m + X)) };

     let Xa_effective = Xa * xa_inhibition;
     let ptase_activity = Xa_effective * Va / (1 + Va);
     r_ptase_ii \<leftarrow> do {
       c \<leftarrow> dict_getitem (k self) ''ptase_ii'';
       m \<leftarrow> dict_getitem (Km self) ''ptase_ii'';
       Some (c * ptase_activity * II / (m + II)) };

     let IIa_effective = IIa * iia_inhibition;
     r_iia_fbg \<leftarrow> do {
       c \<leftarrow> dict_getitem (k self) ''iia_fbg'';
       m \<leftarrow> dict_getitem (Km self) ''iia_fbg'';
       Some (c * IIa_effective * Fbg / (m + Fbg)) };
     r_iia_xiii \<leftarrow> do { c \<leftarrow> dict_getitem (k self) ''iia_xiii''; Some (c * IIa_effective * XIII) };
     r_iia_v \<leftarrow> do { c \<leftarrow> dict_getitem (k self) ''iia_v''; Some (c * IIa_effective * V) };
     r_iia_viii \<leftarrow> do { c \<leftarrow> dict_getitem (k self) ''iia_viii''; Some (c * IIa_effective * VIII) };
     r_iia_xi \<leftarrow> do { c \<leftarrow> dict_getitem (k self) ''iia_xi''; Some (c * IIa_effective * XI) };

     r_xa_v \<leftarrow> do { c \<leftarrow> dict_getitem (k self) ''xa_v''; Some (c * Xa * V) };
     r_xa_viii \<leftarrow> do { c \<leftarrow> dict_getitem (k self) ''xa_viii''; Some (c * Xa * VIII) };

     r_xa_ii_basal \<leftarrow> do { c \<leftarrow> dict_getitem (k self) ''xa_ii_basal''; Some (c * Xa * II) };

     r_at_iia \<leftarrow> do { c \<leftarrow> dict_getitem (k self) ''at_iia''; Some (c * AT * IIa * at_factor) };
     r_at_xa \<leftarrow> do { c \<leftarrow> dict_getitem (k self) ''at_xa''; Some (c * AT * Xa * at_factor) };
     r_at_ixa \<leftarrow> do { c \<leftarrow> dict_getitem (k self) ''at_ixa''; Some (c * AT * IXa * at_factor) };
     r_at_xia \<leftarrow> do { c \<leftarrow> dict_getitem (k self) ''at_xia''; Some (c * AT * XIa * at_factor) };
     r_tfpi_xa \<leftarrow> do { c \<leftarrow> dict_getitem (k self) ''tfpi_xa''; Some (c * TFPI * Xa) };
     r_tfpi_tfviia \<leftarrow> do {
       c \<leftarrow> dict_getitem (k self) ''tfpi_tfviia''; Some (c * TFPI * TF_VIIa * Xa) };

     r_iia_pc \<leftarrow> do { c \<leftarrow> dict_getitem (k self) ''iia_pc''; Some (c * IIa * PC) };
     r_apc_va \<leftarrow> do { c \<leftarrow> dict_getitem (k self) ''apc_va''; Some (c * APC * Va) };
     r_apc_viiia \<leftarrow> do { c \<leftarrow> dict_getitem (k self) ''apc_viiia''; Some (c * APC * VIIIa) };

     (dydt, h) \<leftarrow> Some (np_zeros (n_species self) h);

     h \<leftarrow> dict_getitem (species_idx self) ''TF'' \<bind>
       (\<lambda>i. setitem dydt i (- r_tfviia_form + r_tfviia_diss) h);
     h \<leftarrow> dict_getitem (species_idx self) ''VII'' \<bind>
       (\<lambda>i. setitem dydt i (- r_tfviia_form + r_tfviia_diss) h);
     h \<leftarrow> dict_getitem (species_idx self) ''TF_VIIa'' \<bind>
       (\<lambda>i. setitem dydt i (r_tfviia_form - r_tfviia_diss - r_tfpi_tfviia) h);

     h \<leftarrow> dict_getitem (species_idx self) ''XII'' \<bind> (\<lambda>i. setitem dydt i (- r_xii_auto) h);
     h \<leftarrow> dict_getitem (species_idx self) ''XIIa'' \<bind> (\<lambda>i. setitem dydt i r_xii_auto h);

     h \<leftarrow> dict_getitem (species_idx self) ''XI'' \<bind>
       (\<lambda>i. setitem dydt i (- r_xiia_xi - r_iia_xi) h);
     h \<leftarrow> dict_getitem (species_idx self) ''XIa'' \<bind>
       (\<lambda>i. setitem dydt i (r_xiia_xi + r_iia_xi - r_at_xia) h);

     h \<leftarrow> dict_getitem (species_idx self) ''IX'' \<bind>
       (\<lambda>i. setitem dydt i (- r_tfviia_ix - r_xia_ix) h);
     h \<leftarrow> dict_getitem (species_idx self) ''IXa'' \<bind>
       (\<lambda>i. setitem dydt i (r_tfviia_ix + r_xia_ix - r_at_ixa) h);

     h \<leftarrow> dict_getitem (species_idx self) ''VIII'' \<bind>
       (\<lambda>i. setitem dydt i (- r_iia_viii - r_xa_viii) h);
     h \<leftarrow> dict_getitem (species_idx self) ''VIIIa'' \<bind>
       (\<lambda>i. setitem dydt i (r_iia_viii + r_xa_viii - r_apc_viiia) h);

     h \<leftarrow> dict_getitem (species_idx self) ''X'' \<bind>
       (\<lambda>i. setitem dydt i (- r_tfviia_x - r_tenase_x) h);
     h \<leftarrow> dict_getitem (species_idx self) ''Xa'' \<bind>
       (\<lambda>i. setitem dydt i (r_tfviia_x + r_tenase_x - r_at_xa - r_tfpi_xa) h);

     h \<leftarrow> dict_getitem (species_idx self) ''V'' \<bind>
       (\<lambda>i. setitem dydt i (- r_iia_v - r_xa_v) h);
     h \<leftarrow> dict_getitem (species_idx self) ''Va'' \<bind>
       (\<lambda>i. setitem dydt i (r_iia_v + r_xa_v - r_apc_va) h);

     h \<leftarrow> dict_getitem (species_idx self) ''II'' \<bind>
       (\<lambda>i. setitem dydt i (- r_ptase_ii - r_xa_ii_basal) h);
     h \<leftarrow> dict_getitem (species_idx self) ''IIa'' \<bind>
       (\<lambda>i. setitem dydt i (r_ptase_ii + r_xa_ii_basal - r_at_iia) h);

     h \<leftarrow> dict_getitem (species_idx self) ''Fbg'' \<bind> (\<lambda>i. setitem dydt i (- r_iia_fbg) h);
     h \<leftarrow> dict_getitem (species_idx self) ''Fibrin'' \<bind> (\<lambda>i. setitem dydt i r_iia_fbg h);

     h \<leftarrow> dict_getitem (species_idx self) ''XIII'' \<bind> (\<lambda>i. setitem dydt i (- r_iia_xiii) h);
     h \<leftarrow> dict_getitem (species_idx self) ''XIIIa'' \<bind> (\<lambda>i. setitem dydt i r_iia_xiii h);

     h \<leftarrow> dict_getitem (species_idx self) ''AT'' \<bind>
       (\<lambda>i. setitem dydt i (- (r_at_iia + r_at_xa + r_at_ixa + r_at_xia)) h);

     h \<leftarrow> dict_getitem (species_idx self) ''TFPI'' \<bind>
       (\<lambda>i. setitem dydt i (- r_tfpi_xa - r_tfpi_tfviia) h);

     h \<leftarrow> dict_getitem (species_idx self) ''PC'' \<bind> (\<lambda>i. setitem dydt i (- r_iia_pc) h);
     h \<leftarrow> dict_getitem (species_idx self) ''APC'' \<bind> (\<lambda>i. setitem dydt i r_iia_pc h);

     Some (dydt, h)
   }"

subsection \<open>Running a scenario\<close>

text \<open>
  \<open>scipy.integrate.solve_ivp\<close> is not part of the repository: \<open>simulate\<close> takes it as a
  parameter. It receives the right-hand side, the time span, the initial state, the
  method name, the sample times and the two tolerances, and returns an \<open>OdeResult\<close> or
  raises (\<open>None\<close>). Of the \<open>OdeResult\<close> the model keeps the fields \<open>t\<close>, \<open>y\<close> (one row
  per component) and \<open>success\<close>, which is \<open>False\<close> when the integration did not reach
  the end of the time span.
\<close>

record OdeResult =
  sol_t :: "real list"
  sol_y :: "real list list"
  sol_success :: bool

type_synonym rhs = "real \<Rightarrow> addr \<Rightarrow> store \<Rightarrow> (addr \<times> store) option"

type_synonym ivp_solver =
  "rhs \<Rightarrow> real \<times> real \<Rightarrow> real list \<Rightarrow> string \<Rightarrow> real list \<Rightarrow> real \<Rightarrow> real \<Rightarrow> OdeResult option"

text \<open>
  The first part of \<open>simulate\<close> (from \<open>modifications = {}\<close> to
  \<open>modifications['TF'] = tf_concentration\<close>) computes the overrides and the modifiers of
  the scenario. It is a definition of its own, so that they can be named in a statement.
  The \<open>if\<close>/\<open>elif\<close> chain of the source has no \<open>else\<close>: a name that matches no branch
  leaves both dictionaries as they were initialised.
\<close>

definition simulate_setup ::
  "real simulator \<Rightarrow> string \<Rightarrow> real \<Rightarrow>
   ((string, real) dict \<times> (string, real) dict) option" where
  "simulate_setup self scenario tf_concentration = do {
     let modifications = [];
     let params = [(''at_factor'', 1.0), (''xa_inhibition'', 1.0), (''iia_inhibition'', 1.0)];
     (modifications, params) \<leftarrow>
       (if scenario = ''normal'' then Some (modifications, params)
        else if scenario = ''hemophilia_a'' then
          Some (dict_setitem ''VIII'' 0.0 modifications, params)
        else if scenario = ''hemophilia_b'' then
          Some (dict_setitem ''IX'' 0.0 modifications, params)
        else if scenario = ''warfarin'' then
          Some (fold (\<lambda>factor. dict_setitem factor
                        (dict_get (initial_concentrations self) factor 0 * 0.3))
                  [''II'', ''VII'', ''IX'', ''X'', ''PC''] modifications, params)
        else if scenario = ''heparin'' \<or> scenario = ''heparin_ufh'' then
          Some (modifications, dict_setitem ''at_factor'' 100.0 params)
        else if scenario = ''heparin_lmwh'' then
          Some (modifications,
                dict_setitem ''xa_inhibition'' 0.2 (dict_setitem ''at_factor'' 30.0 params))
        else if scenario = ''rivaroxaban'' then
          Some (modifications, dict_setitem ''xa_inhibition'' 0.05 params)
        else if scenario = ''dabigatran'' then
          Some (modifications, dict_setitem ''iia_inhibition'' 0.05 params)
        else if scenario = ''apixaban'' then
          Some (modifications, dict_setitem ''xa_inhibition'' 0.08 params)
        else if scenario = ''fviii_concentrate'' then
          Some (dict_setitem ''VIII'' 0.7 (dict_setitem ''VIII'' 0.0 modifications), params)
        else if scenario = ''fix_concentrate'' then
          Some (dict_setitem ''IX'' 90.0 (dict_setitem ''IX'' 0.0 modifications), params)
        else if scenario = ''pcc'' then do {
          v \<leftarrow> dict_getitem (initial_concentrations self) ''II'';
          let modifications = dict_setitem ''II'' (v * 1.5) modifications;
          v \<leftarrow> dict_getitem (initial_concentrations self) ''VII'';
          let modifications = dict_setitem ''VII'' (v * 2.0) modifications;
          v \<leftarrow> dict_getitem (initial_concentrations self) ''IX'';
          let modifications = dict_setitem ''IX'' (v * 1.5) modifications;
          v \<leftarrow> dict_getitem (initial_concentrations self) ''X'';
          let modifications = dict_setitem ''X'' (v * 1.5) modifications;
          Some (modifications, params) }
        else if scenario = ''ffp'' then do {
          modifications \<leftarrow> for_each
            [''II'', ''V'', ''VII'', ''VIII'', ''IX'', ''X'', ''XI'', ''Fbg'']
            (\<lambda>factor modifications.
               if dict_contains factor (initial_concentrations self)
               then dict_getitem (initial_concentrations self) factor \<bind>
                      (\<lambda>v. Some (dict_setitem factor (v * 1.2) modifications))
               else Some modifications)
            modifications;
          Some (modifications, params) }
        else if scenario = ''dic'' then do {
          v \<leftarrow> dict_getitem (initial_concentrations self) ''II'';
          let modifications = dict_setitem ''II'' (v * 0.3) modifications;
          v \<leftarrow> dict_getitem (initial_concentrations self) ''V'';
          let modifications = dict_setitem ''V'' (v * 0.2) modifications;
          v \<leftarrow> dict_getitem (initial_concentrations self) ''VIII'';
          let modifications = dict_setitem ''VIII'' (v * 0.2) modifications;
          v \<leftarrow> dict_getitem (initial_concentrations self) ''Fbg'';
          let modifications = dict_setitem ''Fbg'' (v * 0.2) modifications;
          v \<leftarrow> dict_getitem (initial_concentrations self) ''AT'';
          let modifications = dict_setitem ''AT'' (v * 0.3) modifications;
          Some (modifications, params) }
        else if scenario = ''liver_disease'' then do {
          let modifications =
            fold (\<lambda>factor. dict_setitem factor
                    (dict_get (initial_concentrations self) factor 0 * 0.4))
              [''II'', ''VII'', ''IX'', ''X'', ''XI'', ''AT'', ''PC''] modifications;
          v \<leftarrow> dict_getitem (initial_concentrations self) ''V'';
          let modifications = dict_setitem ''V'' (v * 0.5) modifications;
          v \<leftarrow> dict_getitem (initial_concentrations self) ''Fbg'';
          let modifications = dict_setitem ''Fbg'' (v * 0.6) modifications;
          Some (modifications, params) }
        else if scenario = ''vwd_type1'' then do {
          v \<leftarrow> dict_getitem (initial_concentrations self) ''VIII'';
          Some (dict_setitem ''VIII'' (v * 0.3) modifications, params) }
        else Some (modifications, params));
     let modifications = dict_setitem ''TF'' tf_concentration modifications;
     Some (modifications, params)
   }"

record SimulationResult =
  time :: "real list"
  concentrations :: "(string, real list) dict"
  scenario :: string
  parameters :: "(string, real) dict"

definition simulate ::
  "real simulator \<Rightarrow> ivp_solver \<Rightarrow> string \<Rightarrow> real \<Rightarrow> int \<Rightarrow> real \<Rightarrow>
   SimulationResult option" where
  "simulate self solve_ivp scenario_name t_end t_points tf_concentration = do {
     (modifications, params) \<leftarrow> simulate_setup self scenario_name tf_concentration;
     y0 \<leftarrow> get_initial_state self (Some modifications);
     let t_span = (0, t_end);
     t_eval \<leftarrow> np_linspace 0 t_end t_points;
     solution \<leftarrow> solve_ivp (\<lambda>t y. derivatives self t y params) t_span y0 ''LSODA'' t_eval
                   (1 / 10 ^ 6) (1 / 10 ^ 9);
     concentrations \<leftarrow> for_each SPECIES
       (\<lambda>species concentrations. do {
          idx \<leftarrow> dict_getitem (species_idx self) species;
          row \<leftarrow> list_getitem (sol_y solution) idx;
          Some (dict_setitem species row concentrations) })
       [];
     Some \<lparr> time = sol_t solution,
            concentrations = concentrations,
            scenario = scenario_name,
            parameters =
              dict_merge (dict_merge [(''tf_concentration'', tf_concentration)] params)
                modifications \<rparr>
   }"

subsection \<open>Observations used in the statements\<close>

definition component :: "'a simulator \<Rightarrow> 'a list \<Rightarrow> string \<Rightarrow> 'a option" where
  \<comment> \<open>\<open>v[self.species_idx[species]]\<close>, the idiom by which the source reads a vector.\<close>
  "component self v species = dict_getitem (species_idx self) species \<bind> list_getitem v"

definition derivative_vector ::
  "'a::{zero, one, plus, minus, uminus, times, inverse, ord} simulator \<Rightarrow> 'a \<Rightarrow> 'a list \<Rightarrow>
   (string, 'a) dict \<Rightarrow> 'a list option" where
  \<comment> \<open>A call of \<open>derivatives\<close> on an array \<open>ys\<close> held in a store of its own, and the
      contents of the array it returns.\<close>
  "derivative_vector self t ys params =
     (case derivatives self t 0 params [ys] of
        None \<Rightarrow> None
      | Some (dydt, h) \<Rightarrow> if dydt < length h then Some (h ! dydt) else None)"

definition scenario_branches :: "string list" where
  \<comment> \<open>The names that the \<open>if\<close>/\<open>elif\<close> chain of \<open>simulate\<close> compares with: the sixteen
      of its docstring and \<open>heparin\<close>.\<close>
  "scenario_branches =
    [''normal'', ''hemophilia_a'', ''hemophilia_b'', ''warfarin'', ''heparin'', ''heparin_ufh'',
     ''heparin_lmwh'', ''rivaroxaban'', ''dabigatran'', ''apixaban'', ''fviii_concentrate'',
     ''fix_concentrate'', ''pcc'', ''ffp'', ''dic'', ''liver_disease'', ''vwd_type1'']"

definition first_sample_solver :: "bool \<Rightarrow> ivp_solver" where
  \<comment> \<open>A value for the solver parameter, used as a concrete input: it returns the sample
      at the start of the time span only, with the given \<open>success\<close> flag. With
      \<open>False\<close> it stands for an integration that stopped short of the time span.\<close>
  "first_sample_solver ok fn t_span y0 method t_eval rtol atol =
     Some \<lparr> sol_t = [fst t_span], sol_y = map (\<lambda>v. [v]) y0, sol_success = ok \<rparr>"

definition sample_state :: "real list" where
  \<comment> \<open>A state vector used as a concrete input: the baseline concentrations with
      \<open>TF = 25\<close>, some thrombin and activated cofactors, and a negative \<open>Xa\<close> as a solver
      may present it.\<close>
  "sample_state =
    [25, 10, 0, 375, 0, 30, 0, 90, 1, 0.7, 2, 170, - 1, 20, 3, 1400, 5, 9000, 0, 70, 0,
     3400, 2.5, 65, 0, 300]"

subsection \<open>float64 values with overflow\<close>

text \<open>
  A \<open>float64\<close> value is a finite number, an infinity or NaN. An operation on finite
  values returns the exact result when its magnitude is below the overflow threshold of
  the format (\<open>2^1024 - 2^970\<close>, from which rounding to nearest gives an infinity), and
  the infinity of its sign otherwise. Rounding within the range and the sign of zero are
  not modelled. Operations on infinities and NaN follow IEEE 754. The entries of a numpy
  array are \<open>np.float64\<close> scalars: on overflow, on a division by zero and on an invalid
  operation they return these values with a warning, and raise nothing.
\<close>

datatype f64 = Finite real | PosInf | NegInf | NaN

definition f64_overflow :: real where
  "f64_overflow = 2 ^ 1024 - 2 ^ 970"

definition f64_round :: "real \<Rightarrow> f64" where
  "f64_round x = (if \<bar>x\<bar> < f64_overflow then Finite x else if 0 < x then PosInf else NegInf)"


fun f64_sgn :: "f64 \<Rightarrow> int" where
  "f64_sgn (Finite x) = (if 0 < x then 1 else if x < 0 then - 1 else 0)"
| "f64_sgn PosInf = 1"
| "f64_sgn NegInf = - 1"
| "f64_sgn NaN = 0"

definition f64_inf :: "int \<Rightarrow> f64" where
  \<comment> \<open>The infinity of a sign; sign 0 stands for an invalid operation.\<close>
  "f64_inf s = (if 0 < s then PosInf else if s < 0 then NegInf else NaN)"

fun f64_neg :: "f64 \<Rightarrow> f64" where
  "f64_neg (Finite x) = Finite (- x)"
| "f64_neg PosInf = NegInf"
| "f64_neg NegInf = PosInf"
| "f64_neg NaN = NaN"

fun f64_add :: "f64 \<Rightarrow> f64 \<Rightarrow> f64" where
  "f64_add (Finite x) (Finite y) = f64_round (x + y)"
| "f64_add NaN b = NaN"
| "f64_add a NaN = NaN"
| "f64_add PosInf NegInf = NaN"
| "f64_add NegInf PosInf = NaN"
| "f64_add PosInf b = PosInf"
| "f64_add a PosInf = PosInf"
| "f64_add NegInf b = NegInf"
| "f64_add a NegInf = NegInf"

fun f64_mul :: "f64 \<Rightarrow> f64 \<Rightarrow> f64" where
  "f64_mul (Finite x) (Finite y) = f64_round (x * y)"
| "f64_mul NaN b = NaN"
| "f64_mul a NaN = NaN"
| "f64_mul a b = f64_inf (f64_sgn a * f64_sgn b)"

fun f64_div :: "f64 \<Rightarrow> f64 \<Rightarrow> f64" where
  "f64_div (Finite x) (Finite y) =
     (if y = 0 then f64_inf (f64_sgn (Finite x)) else f64_round (x / y))"
| "f64_div NaN b = NaN"
| "f64_div a NaN = NaN"
| "f64_div (Finite x) b = Finite 0"
| "f64_div a (Finite y) = f64_inf (f64_sgn a * (if y < 0 then - 1 else 1))"
| "f64_div a b = NaN"

fun f64_le :: "f64 \<Rightarrow> f64 \<Rightarrow> bool" where
  "f64_le NaN b = False"
| "f64_le a NaN = False"
| "f64_le (Finite x) (Finite y) = (x \<le> y)"
| "f64_le NegInf b = True"
| "f64_le a PosInf = True"
| "f64_le a b = False"

instantiation f64 :: "{zero, one, plus, minus, uminus, times, inverse, ord}"
begin

definition zero_f64 :: f64 where
  "zero_f64 = Finite 0"

definition one_f64 :: f64 where
  "one_f64 = Finite 1"

definition plus_f64 :: "f64 \<Rightarrow> f64 \<Rightarrow> f64" where
  "plus_f64 a b = f64_add a b"

definition uminus_f64 :: "f64 \<Rightarrow> f64" where
  "uminus_f64 a = f64_neg a"

definition minus_f64 :: "f64 \<Rightarrow> f64 \<Rightarrow> f64" where
  "minus_f64 a b = f64_add a (f64_neg b)"

definition times_f64 :: "f64 \<Rightarrow> f64 \<Rightarrow> f64" where
  "times_f64 a b = f64_mul a b"

definition divide_f64 :: "f64 \<Rightarrow> f64 \<Rightarrow> f64" where
  "divide_f64 a b = f64_div a b"

definition inverse_f64 :: "f64 \<Rightarrow> f64" where
  "inverse_f64 a = f64_div (Finite 1) a"

definition less_eq_f64 :: "f64 \<Rightarrow> f64 \<Rightarrow> bool" where
  "less_eq_f64 a b = f64_le a b"

definition less_f64 :: "f64 \<Rightarrow> f64 \<Rightarrow> bool" where
  "less_f64 a b = (f64_le a b \<and> \<not> f64_le b a)"

instance ..

end



section \<open>Properties\<close>

subsection \<open>The tables of the simulator\<close>

lemma species_idx_value:
  "species_idx CoagulationSimulator =
    [(''TF'', 0), (''VII'', 1), (''TF_VIIa'', 2), (''XII'', 3), (''XIIa'', 4), (''XI'', 5),
     (''XIa'', 6), (''IX'', 7), (''IXa'', 8), (''VIII'', 9), (''VIIIa'', 10), (''X'', 11),
     (''Xa'', 12), (''V'', 13), (''Va'', 14), (''II'', 15), (''IIa'', 16), (''Fbg'', 17),
     (''Fibrin'', 18), (''XIII'', 19), (''XIIIa'', 20), (''AT'', 21), (''TFPI'', 22),
     (''PC'', 23), (''APC'', 24), (''PS'', 25)]"
  by (simp add: CoagulationSimulator_def SPECIES_def enumerate_eq_zip dict_setitem_def upt_rec)

lemma n_species_value: "n_species CoagulationSimulator = 26"
  by (simp add: CoagulationSimulator_def SPECIES_def)

lemma idx_lookup:
  "dict_getitem (species_idx CoagulationSimulator) ''TF'' = Some 0"
  "dict_getitem (species_idx CoagulationSimulator) ''VII'' = Some 1"
  "dict_getitem (species_idx CoagulationSimulator) ''TF_VIIa'' = Some 2"
  "dict_getitem (species_idx CoagulationSimulator) ''XII'' = Some 3"
  "dict_getitem (species_idx CoagulationSimulator) ''XIIa'' = Some 4"
  "dict_getitem (species_idx CoagulationSimulator) ''XI'' = Some 5"
  "dict_getitem (species_idx CoagulationSimulator) ''XIa'' = Some 6"
  "dict_getitem (species_idx CoagulationSimulator) ''IX'' = Some 7"
  "dict_getitem (species_idx CoagulationSimulator) ''IXa'' = Some 8"
  "dict_getitem (species_idx CoagulationSimulator) ''VIII'' = Some 9"
  "dict_getitem (species_idx CoagulationSimulator) ''VIIIa'' = Some 10"
  "dict_getitem (species_idx CoagulationSimulator) ''X'' = Some 11"
  "dict_getitem (species_idx CoagulationSimulator) ''Xa'' = Some 12"
  "dict_getitem (species_idx CoagulationSimulator) ''V'' = Some 13"
  "dict_getitem (species_idx CoagulationSimulator) ''Va'' = Some 14"
  "dict_getitem (species_idx CoagulationSimulator) ''II'' = Some 15"
  "dict_getitem (species_idx CoagulationSimulator) ''IIa'' = Some 16"
  "dict_getitem (species_idx CoagulationSimulator) ''Fbg'' = Some 17"
  "dict_getitem (species_idx CoagulationSimulator) ''Fibrin'' = Some 18"
  "dict_getitem (species_idx CoagulationSimulator) ''XIII'' = Some 19"
  "dict_getitem (species_idx CoagulationSimulator) ''XIIIa'' = Some 20"
  "dict_getitem (species_idx CoagulationSimulator) ''AT'' = Some 21"
  "dict_getitem (species_idx CoagulationSimulator) ''TFPI'' = Some 22"
  "dict_getitem (species_idx CoagulationSimulator) ''PC'' = Some 23"
  "dict_getitem (species_idx CoagulationSimulator) ''APC'' = Some 24"
  "dict_getitem (species_idx CoagulationSimulator) ''PS'' = Some 25"
  by (simp_all add: species_idx_value dict_getitem_def)

lemma k_lookup:
  "dict_getitem (k CoagulationSimulator) ''tf_viia_on'' = Some (1 / 100)"
  "dict_getitem (k CoagulationSimulator) ''tf_viia_off'' = Some (1 / 10000)"
  "dict_getitem (k CoagulationSimulator) ''tfviia_x'' = Some (5 / 10000)"
  "dict_getitem (k CoagulationSimulator) ''tfviia_ix'' = Some (1 / 10000)"
  "dict_getitem (k CoagulationSimulator) ''xii_auto'' = Some (1 / 100000)"
  "dict_getitem (k CoagulationSimulator) ''xiia_xi'' = Some (5 / 10000)"
  "dict_getitem (k CoagulationSimulator) ''xia_ix'' = Some (1 / 1000)"
  "dict_getitem (k CoagulationSimulator) ''tenase_x'' = Some 1"
  "dict_getitem (k CoagulationSimulator) ''ptase_ii'' = Some 10"
  "dict_getitem (k CoagulationSimulator) ''iia_fbg'' = Some (1 / 10)"
  "dict_getitem (k CoagulationSimulator) ''iia_xiii'' = Some (5 / 100)"
  "dict_getitem (k CoagulationSimulator) ''iia_v'' = Some (5 / 10)"
  "dict_getitem (k CoagulationSimulator) ''iia_viii'' = Some 1"
  "dict_getitem (k CoagulationSimulator) ''iia_xi'' = Some (1 / 100)"
  "dict_getitem (k CoagulationSimulator) ''xa_v'' = Some (1 / 100)"
  "dict_getitem (k CoagulationSimulator) ''xa_viii'' = Some (5 / 1000)"
  "dict_getitem (k CoagulationSimulator) ''xa_ii_basal'' = Some (1 / 10000)"
  "dict_getitem (k CoagulationSimulator) ''at_iia'' = Some (1 / 10000)"
  "dict_getitem (k CoagulationSimulator) ''at_xa'' = Some (5 / 100000)"
  "dict_getitem (k CoagulationSimulator) ''at_ixa'' = Some (1 / 100000)"
  "dict_getitem (k CoagulationSimulator) ''at_xia'' = Some (5 / 1000000)"
  "dict_getitem (k CoagulationSimulator) ''tfpi_xa'' = Some (1 / 10000)"
  "dict_getitem (k CoagulationSimulator) ''tfpi_tfviia'' = Some (5 / 10000)"
  "dict_getitem (k CoagulationSimulator) ''iia_pc'' = Some (1 / 10000)"
  "dict_getitem (k CoagulationSimulator) ''apc_va'' = Some (5 / 1000)"
  "dict_getitem (k CoagulationSimulator) ''apc_viiia'' = Some (1 / 100)"
  by (simp_all add: CoagulationSimulator_def dict_getitem_def)

lemma Km_lookup:
  "dict_getitem (Km CoagulationSimulator) ''tenase_x'' = Some 160"
  "dict_getitem (Km CoagulationSimulator) ''ptase_ii'' = Some 210"
  "dict_getitem (Km CoagulationSimulator) ''iia_fbg'' = Some 7200"
  by (simp_all add: CoagulationSimulator_def dict_getitem_def)

subsection \<open>The value of the derivative function\<close>

lemma getitem_fresh:
  "getitem (h @ [c]) (length h) i = (if i < length c then Some (c ! i) else None)"
  by (simp add: getitem_def)

lemma setitem_fresh:
  "i < length z \<Longrightarrow> setitem (Suc (length h)) i v (h @ [c, z]) = Some (h @ [c, z[i := v]])"
  by (simp add: setitem_def nth_append list_update_append)

text \<open>
  On a vector too short for the highest index that is read (24, of \<open>APC\<close>), the function
  raises \<open>IndexError\<close>.
\<close>

lemma derivatives_short:
  assumes y: "y < length h" and len: "length (h ! y) < 25"
  shows "derivatives CoagulationSimulator t y params h = None"
  unfolding derivatives_def
  using y len
  by (simp add: np_maximum_def getitem_fresh idx_lookup)

text \<open>
  On every other vector it returns. The store after the call is the store before it with
  two new arrays: the clamped copy \<open>c\<close> and \<open>dydt\<close>, whose 26 entries are these.
\<close>

lemma derivatives_value:
  fixes h :: store and y :: addr and params :: "(string, real) dict"
  defines "c \<equiv> map (\<lambda>v. max v 0) (h ! y)"
  defines "atf \<equiv> dict_get params ''at_factor'' 1"
  defines "xai \<equiv> dict_get params ''xa_inhibition'' 1"
  defines "iiai \<equiv> dict_get params ''iia_inhibition'' 1"
  assumes y: "y < length h" and len: "25 \<le> length (h ! y)"
  shows "derivatives CoagulationSimulator t y params h =
    Some (Suc (length h), h @ [c,
     [- (1 / 100 * c ! 0 * c ! 1) + 1 / 10000 * c ! 2,
      - (1 / 100 * c ! 0 * c ! 1) + 1 / 10000 * c ! 2,
      1 / 100 * c ! 0 * c ! 1 - 1 / 10000 * c ! 2 - 5 / 10000 * c ! 22 * c ! 2 * c ! 12,
      - (1 / 100000 * c ! 3),
      1 / 100000 * c ! 3,
      - (5 / 10000 * c ! 4 * c ! 5) - 1 / 100 * (c ! 16 * iiai) * c ! 5,
      5 / 10000 * c ! 4 * c ! 5 + 1 / 100 * (c ! 16 * iiai) * c ! 5
        - 5 / 1000000 * c ! 21 * c ! 6 * atf,
      - (1 / 10000 * c ! 2 * c ! 7) - 1 / 1000 * c ! 6 * c ! 7,
      1 / 10000 * c ! 2 * c ! 7 + 1 / 1000 * c ! 6 * c ! 7 - 1 / 100000 * c ! 21 * c ! 8 * atf,
      - (1 * (c ! 16 * iiai) * c ! 9) - 5 / 1000 * c ! 12 * c ! 9,
      1 * (c ! 16 * iiai) * c ! 9 + 5 / 1000 * c ! 12 * c ! 9 - 1 / 100 * c ! 24 * c ! 10,
      - (5 / 10000 * c ! 2 * c ! 11)
        - 1 * (c ! 8 * c ! 10 / (1 + c ! 10)) * c ! 11 / (160 + c ! 11),
      5 / 10000 * c ! 2 * c ! 11
        + 1 * (c ! 8 * c ! 10 / (1 + c ! 10)) * c ! 11 / (160 + c ! 11)
        - 5 / 100000 * c ! 21 * c ! 12 * atf - 1 / 10000 * c ! 22 * c ! 12,
      - (5 / 10 * (c ! 16 * iiai) * c ! 13) - 1 / 100 * c ! 12 * c ! 13,
      5 / 10 * (c ! 16 * iiai) * c ! 13 + 1 / 100 * c ! 12 * c ! 13
        - 5 / 1000 * c ! 24 * c ! 14,
      - (10 * (c ! 12 * xai * c ! 14 / (1 + c ! 14)) * c ! 15 / (210 + c ! 15))
        - 1 / 10000 * c ! 12 * c ! 15,
      10 * (c ! 12 * xai * c ! 14 / (1 + c ! 14)) * c ! 15 / (210 + c ! 15)
        + 1 / 10000 * c ! 12 * c ! 15 - 1 / 10000 * c ! 21 * c ! 16 * atf,
      - (1 / 10 * (c ! 16 * iiai) * c ! 17 / (7200 + c ! 17)),
      1 / 10 * (c ! 16 * iiai) * c ! 17 / (7200 + c ! 17),
      - (5 / 100 * (c ! 16 * iiai) * c ! 19),
      5 / 100 * (c ! 16 * iiai) * c ! 19,
      - (1 / 10000 * c ! 21 * c ! 16 * atf + 5 / 100000 * c ! 21 * c ! 12 * atf
         + 1 / 100000 * c ! 21 * c ! 8 * atf + 5 / 1000000 * c ! 21 * c ! 6 * atf),
      - (1 / 10000 * c ! 22 * c ! 12) - 5 / 10000 * c ! 22 * c ! 2 * c ! 12,
      - (1 / 10000 * c ! 16 * c ! 23),
      1 / 10000 * c ! 16 * c ! 23,
      0]])"
proof -
  have lc: "length c = length (h ! y)" by (simp add: c_def)
  have ne: "h ! y \<noteq> []" using len by auto
  show ?thesis
    unfolding derivatives_def
    using y len lc ne
    by (simp add: np_maximum_def np_zeros_def getitem_fresh idx_lookup k_lookup Km_lookup
        n_species_value setitem_fresh Let_def c_def[symmetric] atf_def[symmetric]
        xai_def[symmetric] iiai_def[symmetric] nth_append eval_nat_numeral)
qed

subsection \<open>Conservation of the precursor and product pairs\<close>












subsection \<open>Dependence on the state vector only\<close>

lemma clamp_idem:
  "map (\<lambda>v. max v (0::real)) (map (\<lambda>v. max v 0) ys) = map (\<lambda>v. max v 0) ys"
  by simp

text \<open>
  A call in any store, at any time, is the call on the same vector in a store that holds
  nothing else: the two new arrays are appended to the caller's store.
\<close>

lemma derivatives_any_store:
  assumes "y < length h"
  shows "derivatives CoagulationSimulator t y params h =
         map_option (\<lambda>(dydt, g). (Suc (length h), h @ tl g))
           (derivatives CoagulationSimulator t' 0 params [h ! y])"
proof (cases "25 \<le> length (h ! y)")
  case True
  have 1: "(0::nat) < length [h ! y]" by simp
  have 2: "25 \<le> length ([h ! y] ! 0)" using True by simp
  show ?thesis
    by (simp add: derivatives_value[OF assms True] derivatives_value[OF 1 2])
next
  case False
  then have a: "length (h ! y) < 25" by simp
  have 1: "(0::nat) < length [h ! y]" by simp
  have 2: "length ([h ! y] ! 0) < 25" using a by simp
  show ?thesis
    by (simp add: derivatives_short[OF assms a] derivatives_short[OF 1 2])
qed

text \<open>Clamping the argument beforehand changes nothing in the arrays that are produced.\<close>

lemma derivatives_of_clamped:
  assumes "25 \<le> length ys"
  shows "derivatives CoagulationSimulator t 0 params [map (\<lambda>v. max v 0) ys] =
         map_option (\<lambda>(dydt, g). (dydt, map (\<lambda>v. max v 0) ys # tl g))
           (derivatives CoagulationSimulator t 0 params [ys])"
proof -
  have 1: "(0::nat) < length [ys]" by simp
  have 2: "25 \<le> length ([ys] ! 0)" using assms by simp
  have 3: "(0::nat) < length [map (\<lambda>v. max v 0) ys]" by simp
  have 4: "25 \<le> length ([map (\<lambda>v. max v 0) ys] ! 0)" using assms by simp
  show ?thesis
    unfolding derivatives_value[OF 1 2] derivatives_value[OF 3 4] nth_Cons_0 clamp_idem
    by simp
qed

text \<open>
  C8. The derivative function is deterministic and keeps no state between calls: two
  calls on arrays with the same contents and with the same modifier dictionary, at any
  two times and in any two stores (so also one after the other), return arrays with the
  same contents, or both raise. A \<open>float\<close> being a real number here, "bit-identical" is
  equality of the values.
\<close>

theorem derivatives_deterministic:
  assumes "y1 < length h1" and "y2 < length h2" and "h1 ! y1 = h2 ! y2"
  shows "map_option (\<lambda>(dydt, h'). h' ! dydt) (derivatives CoagulationSimulator t1 y1 params h1) =
         map_option (\<lambda>(dydt, h'). h' ! dydt) (derivatives CoagulationSimulator t2 y2 params h2)"
proof (cases "derivatives CoagulationSimulator 0 0 params [h2 ! y2]")
  case None
  then show ?thesis
    by (simp add: derivatives_any_store[OF assms(1), of t1 params 0]
        derivatives_any_store[OF assms(2), of t2 params 0] assms(3))
next
  case (Some r)
  obtain d g where r: "r = (d, g)" by (cases r)
  have "length g = 3"
  proof (cases "25 \<le> length (h2 ! y2)")
    case True
    have 1: "(0::nat) < length [h2 ! y2]" by simp
    have 2: "25 \<le> length ([h2 ! y2] ! 0)" using True by simp
    from Some r show ?thesis unfolding derivatives_value[OF 1 2] by auto
  next
    case False
    have 1: "(0::nat) < length [h2 ! y2]" by simp
    have 2: "length ([h2 ! y2] ! 0) < 25" using False by simp
    from Some show ?thesis unfolding derivatives_short[OF 1 2] by simp
  qed
  then obtain a b c where g: "g = [a, b, c]"
    by (cases g; cases "tl g"; cases "tl (tl g)"; cases "tl (tl (tl g))") auto
  show ?thesis
    by (simp add: derivatives_any_store[OF assms(1), of t1 params 0]
        derivatives_any_store[OF assms(2), of t2 params 0] assms(3) Some r g nth_append)
qed

theorem derivatives_deterministic_witness:
  "(0::nat) < length [sample_state] \<and> (1::nat) < length [[0], sample_state] \<and>
   [sample_state] ! 0 = [[0], sample_state] ! 1 \<and>
   derivatives CoagulationSimulator 0 0 [(''at_factor'', 100)] [sample_state] \<noteq> None \<and>
   map_option (\<lambda>(dydt, h'). h' ! dydt)
     (derivatives CoagulationSimulator 0 0 [(''at_factor'', 100)] [sample_state]) =
   map_option (\<lambda>(dydt, h'). h' ! dydt)
     (derivatives CoagulationSimulator 600 1 [(''at_factor'', 100)] [[0], sample_state])"
proof -
  have a: "(0::nat) < length [sample_state]" by simp
  have b: "(1::nat) < length [[0], sample_state]" by simp
  have c: "[sample_state] ! 0 = [[0], sample_state] ! 1" by simp
  have len: "25 \<le> length ([sample_state] ! 0)" by (simp add: sample_state_def)
  have d: "derivatives CoagulationSimulator 0 0 [(''at_factor'', 100)] [sample_state] \<noteq> None"
    unfolding derivatives_value[OF a len] by simp
  from derivatives_deterministic[OF a b c, of 0 "[(''at_factor'', 100)]" 600] a b c d
  show ?thesis by blast
qed

subsection \<open>The caller's array\<close>

text \<open>
  C9. For every state vector on which the function returns, negative entries or not:
  the store after the call begins with the caller's store, unchanged (the caller's array
  \<open>y\<close> included); the working copy is a new array, the caller's with every entry
  replaced by its maximum with 0, so none of its entries is negative; and the vector
  returned is the one the function computes from the working copy.
\<close>

theorem derivatives_clamps_copy:
  assumes "y < length h" and "25 \<le> length (h ! y)"
  shows "\<exists>dydt h'. derivatives CoagulationSimulator t y params h = Some (dydt, h') \<and>
           take (length h) h' = h \<and> h' ! y = h ! y \<and>
           length h' = length h + 2 \<and> dydt = length h + 1 \<and>
           h' ! length h = map (\<lambda>v. max v 0) (h ! y) \<and>
           list_all (\<lambda>v. 0 \<le> v) (h' ! length h) \<and>
           derivative_vector CoagulationSimulator t (h' ! length h) params = Some (h' ! dydt)"
proof -
  let ?c = "map (\<lambda>v. max v 0) (h ! y)"
  have 1: "(0::nat) < length [h ! y]" by simp
  have 2: "25 \<le> length ([h ! y] ! 0)" using assms(2) by simp
  have "\<exists>V. derivatives CoagulationSimulator t 0 params [h ! y] =
          Some (Suc (length [h ! y]), [h ! y] @ [map (\<lambda>v. max v 0) ([h ! y] ! 0), V])"
    unfolding derivatives_value[OF 1 2] by (rule exI) (rule refl)
  then obtain V where
    V: "derivatives CoagulationSimulator t 0 params [h ! y] = Some (2, [h ! y, ?c, V])"
    by auto
  have own: "derivatives CoagulationSimulator t y params h = Some (Suc (length h), h @ [?c, V])"
    by (simp add: derivatives_any_store[OF assms(1), of t params t] V)
  have cl: "derivatives CoagulationSimulator t 0 params [?c] = Some (2, [?c, ?c, V])"
    by (simp add: derivatives_of_clamped[OF assms(2)] V)
  have nn: "list_all (\<lambda>v. 0 \<le> v) ?c"
    by (simp add: list_all_iff)
  show ?thesis
    using assms(1) nn
    by (simp add: own derivative_vector_def cl nth_append)
qed

theorem derivatives_clamps_copy_witness:
  "(0::nat) < length [sample_state] \<and> 25 \<le> length ([sample_state] ! 0) \<and>
   \<not> list_all (\<lambda>v. 0 \<le> v) sample_state \<and>
   (\<exists>dydt h'. derivatives CoagulationSimulator 0 0 [] [sample_state] = Some (dydt, h') \<and>
      take (length [sample_state]) h' = [sample_state] \<and> h' ! 0 = [sample_state] ! 0 \<and>
      length h' = length [sample_state] + 2 \<and> dydt = length [sample_state] + 1 \<and>
      h' ! length [sample_state] = map (\<lambda>v. max v 0) ([sample_state] ! 0) \<and>
      list_all (\<lambda>v. 0 \<le> v) (h' ! length [sample_state]) \<and>
      derivative_vector CoagulationSimulator 0 (h' ! length [sample_state]) [] = Some (h' ! dydt))"
proof -
  have len: "25 \<le> length ([sample_state] ! 0)" by (simp add: sample_state_def)
  have pos: "(0::nat) < length [sample_state]" by simp
  have neg: "\<not> list_all (\<lambda>v. 0 \<le> v) sample_state" by (simp add: sample_state_def)
  from derivatives_clamps_copy[OF pos len, of 0 "[]"] pos len neg
  show ?thesis by blast
qed

subsection \<open>The rate laws read off the derivative vector\<close>

text \<open>
  The statements below take the state vector as \<open>map f SPECIES\<close>, the vector whose entry
  for the species \<open>s\<close> is \<open>f s\<close>, and write \<open>c s\<close> for the clamped concentration
  \<open>max (f s) 0\<close>. The reaction rates are local variables of the source; they are read
  off the entries of the result: \<open>d[Fibrin]/dt\<close> is the rate of fibrinogen cleavage,
  \<open>d[X]/dt\<close> is minus the sum of the initiation rate and the tenase rate, and
  \<open>d[II]/dt\<close> is minus the sum of the prothrombinase rate and the basal rate.
\<close>

lemma derivative_vector_eq:
  assumes "25 \<le> length ys"
  shows "derivative_vector CoagulationSimulator t ys params =
         map_option (\<lambda>(dydt, h). h ! dydt) (derivatives CoagulationSimulator t 0 params [ys])"
proof -
  have 1: "(0::nat) < length [ys]" by simp
  have 2: "25 \<le> length ([ys] ! 0)" using assms by simp
  show ?thesis
    unfolding derivative_vector_def derivatives_value[OF 1 2] by simp
qed

lemma species_state_length: "25 \<le> length (map f SPECIES)"
  by (simp add: SPECIES_def)

text \<open>
  C4, as the code has it. The prothrombinase rate uses the effective concentration
  \<open>Xa * xa_inhibition\<close>; the basal conversion of prothrombin by \<open>Xa\<close> alone uses the
  clamped \<open>Xa\<close> itself, whatever \<open>xa_inhibition\<close> is.
\<close>

theorem xa_inhibition_in_prothrombinase_only:
  fixes f :: "string \<Rightarrow> real" and params :: "(string, real) dict"
  defines "c \<equiv> \<lambda>s. max (f s) 0"
  defines "xa_inhibition \<equiv> dict_get params ''xa_inhibition'' 1"
  defines "at_factor \<equiv> dict_get params ''at_factor'' 1"
  shows "\<exists>dydt. derivative_vector CoagulationSimulator t (map f SPECIES) params = Some dydt \<and>
     component CoagulationSimulator dydt ''II'' =
       Some (- (10 * (c ''Xa'' * xa_inhibition * c ''Va'' / (1 + c ''Va'')) * c ''II''
                 / (210 + c ''II''))
             - 1 / 10000 * c ''Xa'' * c ''II'') \<and>
     component CoagulationSimulator dydt ''IIa'' =
       Some (10 * (c ''Xa'' * xa_inhibition * c ''Va'' / (1 + c ''Va'')) * c ''II''
                 / (210 + c ''II'')
             + 1 / 10000 * c ''Xa'' * c ''II''
             - 1 / 10000 * c ''AT'' * c ''IIa'' * at_factor)"
proof -
  have 1: "(0::nat) < length [map f SPECIES]" by simp
  have 2: "25 \<le> length ([map f SPECIES] ! 0)" by (simp add: SPECIES_def)
  show ?thesis
    unfolding derivative_vector_eq[OF species_state_length] derivatives_value[OF 1 2]
    by (simp add: component_def idx_lookup list_getitem_def SPECIES_def c_def
        xa_inhibition_def at_factor_def)
qed

text \<open>
  C4 as stated fails. In the state with \<open>Xa = 1\<close> (index 12), \<open>II = 1\<close> (index 15)
  and every other concentration 0, under \<open>xa_inhibition = 0\<close>, the effective \<open>Xa\<close> is 0: were it used in
  both reactions, \<open>d[II]/dt\<close> would be 0. The code returns \<open>- 1/10000\<close>.
\<close>

theorem basal_rate_ignores_xa_inhibition:
  "do { dydt \<leftarrow> derivative_vector CoagulationSimulator 0
                  ((replicate 26 0)[12 := 1, 15 := 1]) [(''xa_inhibition'', 0)];
        component CoagulationSimulator dydt ''II'' } = Some (- (1 / 10000)) \<and>
   (- (1 / 10000) :: real) \<noteq>
     - (10 * (1 * 0 * 0 / (1 + 0)) * 1 / (210 + 1)) - 1 / 10000 * (1 * 0) * 1"
proof -
  let ?ys = "(replicate 26 (0::real))[12 := 1, 15 := 1]"
  have 0: "25 \<le> length ?ys" by simp
  have 1: "(0::nat) < length [?ys]" by simp
  have 2: "25 \<le> length ([?ys] ! 0)" by simp
  show ?thesis
    unfolding derivative_vector_eq[OF 0] derivatives_value[OF 1 2]
    by (simp add: component_def idx_lookup list_getitem_def dict_get_def)
qed

text \<open>
  C5, as the code has it. The tenase rate and the prothrombinase rate have the form
  \<open>rate_constant * (enzyme * cofactor / (1 + cofactor)) * substrate / (Km + substrate)\<close>,
  with constants 1 and 160, and 10 and 210, the enzyme of prothrombinase being the
  effective \<open>Xa\<close>. The cleavage of fibrinogen by thrombin has the rate
  \<open>0.1 * (IIa * iia_inhibition) * Fbg / (7200 + Fbg)\<close>: no cofactor takes part.
\<close>

theorem saturating_rate_laws:
  fixes f :: "string \<Rightarrow> real" and params :: "(string, real) dict"
  defines "c \<equiv> \<lambda>s. max (f s) 0"
  defines "xa_inhibition \<equiv> dict_get params ''xa_inhibition'' 1"
  defines "iia_inhibition \<equiv> dict_get params ''iia_inhibition'' 1"
  shows "\<exists>dydt. derivative_vector CoagulationSimulator t (map f SPECIES) params = Some dydt \<and>
     component CoagulationSimulator dydt ''X'' =
       Some (- (5 / 10000 * c ''TF_VIIa'' * c ''X'')
             - 1 * (c ''IXa'' * c ''VIIIa'' / (1 + c ''VIIIa'')) * c ''X'' / (160 + c ''X'')) \<and>
     component CoagulationSimulator dydt ''II'' =
       Some (- (10 * (c ''Xa'' * xa_inhibition * c ''Va'' / (1 + c ''Va'')) * c ''II''
                 / (210 + c ''II''))
             - 1 / 10000 * c ''Xa'' * c ''II'') \<and>
     component CoagulationSimulator dydt ''Fbg'' =
       Some (- (1 / 10 * (c ''IIa'' * iia_inhibition) * c ''Fbg'' / (7200 + c ''Fbg''))) \<and>
     component CoagulationSimulator dydt ''Fibrin'' =
       Some (1 / 10 * (c ''IIa'' * iia_inhibition) * c ''Fbg'' / (7200 + c ''Fbg''))"
proof -
  have 1: "(0::nat) < length [map f SPECIES]" by simp
  have 2: "25 \<le> length ([map f SPECIES] ! 0)" by (simp add: SPECIES_def)
  show ?thesis
    unfolding derivative_vector_eq[OF species_state_length] derivatives_value[OF 1 2]
    by (simp add: component_def idx_lookup list_getitem_def SPECIES_def c_def
        xa_inhibition_def iia_inhibition_def)
qed

text \<open>
  C5 as stated fails for fibrinogen. In the state where every concentration is 1, a
  factor \<open>cofactor / (1 + cofactor)\<close> would be \<open>1/2\<close> whichever species the cofactor
  were, and the rate \<open>0.1 * (1 * 1/2) * 1 / 7201\<close>. The code returns \<open>0.1 * 1 * 1 / 7201\<close>.
\<close>

theorem fibrinogen_rate_has_no_cofactor_term:
  "do { dydt \<leftarrow> derivative_vector CoagulationSimulator 0 (replicate 26 1) [];
        component CoagulationSimulator dydt ''Fibrin'' } = Some (1 / 72010) \<and>
   (1 / 72010 :: real) \<noteq> 1 / 10 * (1 * 1 / (1 + 1)) * 1 / (7200 + 1)"
proof -
  let ?ys = "replicate 26 (1::real)"
  have 0: "25 \<le> length ?ys" by simp
  have 1: "(0::nat) < length [?ys]" by simp
  have 2: "25 \<le> length ([?ys] ! 0)" by simp
  show ?thesis
    unfolding derivative_vector_eq[OF 0] derivatives_value[OF 1 2]
    by (simp add: component_def idx_lookup list_getitem_def dict_get_def)
qed

subsection \<open>The initial state of a run\<close>

lemma species_idx_zip: "species_idx CoagulationSimulator = zip SPECIES [0 ..< length SPECIES]"
  by (simp add: species_idx_value SPECIES_def upt_rec)

lemma distinct_SPECIES: "distinct SPECIES"
  by (simp add: SPECIES_def)

lemma map_of_zip_index:
  "map_of (zip xs [0 ..< length xs]) s = Some i \<Longrightarrow> i < length xs \<and> xs ! i = s"
proof -
  assume "map_of (zip xs [0 ..< length xs]) s = Some i"
  then have "(s, i) \<in> set (zip xs [0 ..< length xs])" by (rule map_of_SomeD)
  then obtain n where "n < length xs" "xs ! n = s" "[0 ..< length xs] ! n = i"
    by (auto simp: in_set_zip)
  then show ?thesis by simp
qed

lemma map_of_zip_None:
  assumes "map_of (zip xs [0 ..< length xs]) s = None"
  shows "s \<notin> set xs"
proof -
  have "map fst (zip xs [0 ..< length xs]) = xs" by simp
  then have "fst ` set (zip xs [0 ..< length xs]) = set xs"
    by (metis set_map)
  with assms show ?thesis by (simp add: map_of_eq_None_iff)
qed

lemma map_update_distinct:
  assumes "distinct xs" and "i < length xs"
  shows "(map g xs)[i := v] = map (g(xs ! i := v)) xs"
proof (rule nth_equalityI)
  show "length ((map g xs)[i := v]) = length (map (g(xs ! i := v)) xs)" by simp
next
  fix j assume "j < length ((map g xs)[i := v])"
  then have j: "j < length xs" by simp
  show "(map g xs)[i := v] ! j = map (g(xs ! i := v)) xs ! j"
    using assms j by (simp add: nth_list_update nth_eq_iff_index_eq)
qed

text \<open>
  One assignment \<open>y0[self.species_idx[species]] = conc\<close> of \<open>get_initial_state\<close>, guarded
  by \<open>species in self.species_idx\<close>, on a vector given species by species.
\<close>

lemma assign_step:
  "(if dict_contains s (species_idx CoagulationSimulator)
    then dict_getitem (species_idx CoagulationSimulator) s \<bind>
           (\<lambda>i. list_setitem (map g SPECIES) i v)
    else Some (map g SPECIES)) = Some (map (g(s := v)) SPECIES)"
proof (cases "map_of (zip SPECIES [0 ..< length SPECIES]) s")
  case None
  then have "s \<notin> set SPECIES" by (rule map_of_zip_None)
  then have eq: "map (g(s := v)) SPECIES = map g SPECIES" by simp
  show ?thesis
    unfolding dict_contains_def dict_getitem_def species_idx_zip None eq by simp
next
  case (Some i)
  from map_of_zip_index[OF Some] have i: "i < length SPECIES" "SPECIES ! i = s"
    by simp_all
  have upd: "(map g SPECIES)[i := v] = map (g(s := v)) SPECIES"
    unfolding map_update_distinct[OF distinct_SPECIES i(1), of g v] i(2) by (rule refl)
  show ?thesis
    unfolding dict_contains_def dict_getitem_def species_idx_zip list_setitem_def Some
    using i(1) upd by simp
qed

lemma for_each_assign:
  "for_each ms
     (\<lambda>(species, conc) y0.
        if dict_contains species (species_idx CoagulationSimulator)
        then dict_getitem (species_idx CoagulationSimulator) species \<bind>
               (\<lambda>i. list_setitem y0 i conc)
        else Some y0) (map g SPECIES) =
   Some (map (\<lambda>s. case map_of (rev ms) s of Some v \<Rightarrow> v | None \<Rightarrow> g s) SPECIES)"
proof (induction ms arbitrary: g)
  case Nil
  then show ?case by simp
next
  case (Cons a ms)
  obtain s v where a: "a = (s, v)" by (cases a)
  have "(\<lambda>s'. case map_of (rev ms) s' of Some v' \<Rightarrow> v' | None \<Rightarrow> (g(s := v)) s') =
        (\<lambda>s'. case map_of (rev (a # ms)) s' of Some v' \<Rightarrow> v' | None \<Rightarrow> g s')"
    by (rule ext) (simp add: a map_add_def split: option.splits)
  then show ?case
    unfolding a for_each.simps prod.case assign_step option.case Cons.IH
    by simp
qed

text \<open>
  The initial state holds, for each species, the last value that the overrides give it,
  and its baseline concentration when they give none.
\<close>

lemma get_initial_state_value:
  "get_initial_state CoagulationSimulator (Some ms) =
   Some (map (\<lambda>s. case map_of (rev ms) s of
                     Some v \<Rightarrow> v
                   | None \<Rightarrow> (case map_of (rev (initial_concentrations CoagulationSimulator)) s of
                       Some v \<Rightarrow> v | None \<Rightarrow> 0)) SPECIES)"
proof -
  have z: "replicate (n_species CoagulationSimulator) (0::real) = map (\<lambda>s. 0) SPECIES"
    by (simp add: CoagulationSimulator_def map_replicate_const)
  show ?thesis
    unfolding get_initial_state_def z Let_def for_each_assign
    by (cases "ms = []") (simp_all add: for_each_assign)
qed

lemma baseline_contains:
  "dict_contains ''II'' (initial_concentrations CoagulationSimulator)"
  "dict_contains ''V'' (initial_concentrations CoagulationSimulator)"
  "dict_contains ''VII'' (initial_concentrations CoagulationSimulator)"
  "dict_contains ''VIII'' (initial_concentrations CoagulationSimulator)"
  "dict_contains ''IX'' (initial_concentrations CoagulationSimulator)"
  "dict_contains ''X'' (initial_concentrations CoagulationSimulator)"
  "dict_contains ''XI'' (initial_concentrations CoagulationSimulator)"
  "dict_contains ''Fbg'' (initial_concentrations CoagulationSimulator)"
  by (simp_all add: CoagulationSimulator_def dict_contains_def)

lemma baseline_getitem:
  "dict_getitem (initial_concentrations CoagulationSimulator) ''II'' = Some 1400"
  "dict_getitem (initial_concentrations CoagulationSimulator) ''V'' = Some 20"
  "dict_getitem (initial_concentrations CoagulationSimulator) ''VII'' = Some 10"
  "dict_getitem (initial_concentrations CoagulationSimulator) ''VIII'' = Some (7 / 10)"
  "dict_getitem (initial_concentrations CoagulationSimulator) ''IX'' = Some 90"
  "dict_getitem (initial_concentrations CoagulationSimulator) ''X'' = Some 170"
  "dict_getitem (initial_concentrations CoagulationSimulator) ''XI'' = Some 30"
  "dict_getitem (initial_concentrations CoagulationSimulator) ''Fbg'' = Some 9000"
  "dict_getitem (initial_concentrations CoagulationSimulator) ''AT'' = Some 3400"
  by (simp_all add: CoagulationSimulator_def dict_getitem_def)

lemma baseline_get:
  "dict_get (initial_concentrations CoagulationSimulator) ''II'' 0 = 1400"
  "dict_get (initial_concentrations CoagulationSimulator) ''VII'' 0 = 10"
  "dict_get (initial_concentrations CoagulationSimulator) ''IX'' 0 = 90"
  "dict_get (initial_concentrations CoagulationSimulator) ''X'' 0 = 170"
  "dict_get (initial_concentrations CoagulationSimulator) ''XI'' 0 = 30"
  "dict_get (initial_concentrations CoagulationSimulator) ''AT'' 0 = 3400"
  "dict_get (initial_concentrations CoagulationSimulator) ''PC'' 0 = 65"
  by (simp_all add: CoagulationSimulator_def dict_get_def)

lemma simulate_setup_TF:
  "\<exists>m p. simulate_setup CoagulationSimulator scn tf = Some (m, p) \<and>
          map_of (rev m) ''TF'' = Some tf \<and> map_of m ''TF'' = Some tf"
  by (simp add: simulate_setup_def dict_setitem_def baseline_contains baseline_getitem
      baseline_get Let_def)

lemma component_TF: "component CoagulationSimulator (map F SPECIES) ''TF'' = Some (F ''TF'')"
  by (simp add: component_def idx_lookup list_getitem_def SPECIES_def)

text \<open>
  C7. For every scenario name and every trigger dose, the scenario part of \<open>simulate\<close>
  returns overrides whose \<open>TF\<close> entry is the dose (the assignment
  \<open>modifications['TF'] = tf_concentration\<close> comes after every branch), and the initial
  state that \<open>get_initial_state\<close> builds from them, which \<open>simulate\<close> hands to the
  solver, has the dose as its \<open>TF\<close> entry.
\<close>

theorem trigger_dose_wins:
  "\<exists>m p y0. simulate_setup CoagulationSimulator scn tf = Some (m, p) \<and>
     get_initial_state CoagulationSimulator (Some m) = Some y0 \<and>
     dict_getitem m ''TF'' = Some tf \<and>
     component CoagulationSimulator y0 ''TF'' = Some tf"
proof -
  obtain m p where mp: "simulate_setup CoagulationSimulator scn tf = Some (m, p)"
    and tf: "map_of (rev m) ''TF'' = Some tf" and tf': "map_of m ''TF'' = Some tf"
    using simulate_setup_TF by blast
  show ?thesis
    unfolding mp
    by (simp add: get_initial_state_value component_TF tf tf' dict_getitem_def)
qed

subsection \<open>The species registry\<close>

text \<open>
  C3 as stated fails: the list \<open>SPECIES\<close> has 26 names, not 25. The 26th is \<open>PS\<close>, with
  index 25, outside \<open>0..24\<close>.
\<close>

theorem species_registry_has_26:
  "length SPECIES = 26 \<and> length SPECIES \<noteq> 25 \<and> n_species CoagulationSimulator = 26 \<and>
   ''PS'' \<in> set SPECIES \<and> dict_getitem (species_idx CoagulationSimulator) ''PS'' = Some 25"
  by (simp add: idx_lookup n_species_value) (simp add: SPECIES_def)

text \<open>
  C3, as the code has it. The registry has exactly 26 species, pairwise distinct;
  \<open>__init__\<close> gives them the indices \<open>0..25\<close> in the order of the list, and the mapping
  from names to indices is a bijection between the 26 names and \<open>0..25\<close>. The methods
  of the embedding take the simulator as an argument and return none: no method of the
  source assigns to \<open>SPECIES\<close>, \<open>species_idx\<close> or \<open>n_species\<close>.
\<close>

theorem species_registry_bijection:
  "length SPECIES = 26 \<and> n_species CoagulationSimulator = 26 \<and> distinct SPECIES \<and>
   map fst (species_idx CoagulationSimulator) = SPECIES \<and>
   map snd (species_idx CoagulationSimulator) = [0 ..< 26] \<and>
   bij_betw (dict_getitem (species_idx CoagulationSimulator)) (set SPECIES) (Some ` {0 ..< 26})"
proof -
  have len: "length SPECIES = 26" by (simp add: SPECIES_def)
  have keys: "map fst (species_idx CoagulationSimulator) = SPECIES"
    unfolding species_idx_zip by simp
  have vals: "map snd (species_idx CoagulationSimulator) = [0 ..< 26]"
    unfolding species_idx_zip by (simp add: len)
  have img: "map (dict_getitem (species_idx CoagulationSimulator)) SPECIES = map Some [0 ..< 26]"
    by (simp add: SPECIES_def idx_lookup upt_rec)
  have "distinct (map (dict_getitem (species_idx CoagulationSimulator)) SPECIES)"
    unfolding img by (simp add: distinct_map)
  then have inj: "inj_on (dict_getitem (species_idx CoagulationSimulator)) (set SPECIES)"
    by (simp add: distinct_map)
  have "dict_getitem (species_idx CoagulationSimulator) ` set SPECIES = set (map Some [0 ..< 26])"
    unfolding img[symmetric] by simp
  then have "dict_getitem (species_idx CoagulationSimulator) ` set SPECIES = Some ` {0 ..< 26}"
    by simp
  with inj have "bij_betw (dict_getitem (species_idx CoagulationSimulator)) (set SPECIES)
      (Some ` {0 ..< 26})"
    unfolding bij_betw_def by simp
  with len keys vals distinct_SPECIES n_species_value show ?thesis by simp
qed

subsection \<open>Replacement and concentrate scenarios\<close>

lemma component_map:
  "component CoagulationSimulator (map F SPECIES) ''II'' = Some (F ''II'')"
  "component CoagulationSimulator (map F SPECIES) ''V'' = Some (F ''V'')"
  "component CoagulationSimulator (map F SPECIES) ''VII'' = Some (F ''VII'')"
  "component CoagulationSimulator (map F SPECIES) ''VIII'' = Some (F ''VIII'')"
  "component CoagulationSimulator (map F SPECIES) ''IX'' = Some (F ''IX'')"
  "component CoagulationSimulator (map F SPECIES) ''X'' = Some (F ''X'')"
  "component CoagulationSimulator (map F SPECIES) ''XI'' = Some (F ''XI'')"
  "component CoagulationSimulator (map F SPECIES) ''Fbg'' = Some (F ''Fbg'')"
  by (simp_all add: component_def idx_lookup list_getitem_def SPECIES_def)

lemma setup_pcc:
  "simulate_setup CoagulationSimulator ''pcc'' tf =
     Some ([(''II'', 2100), (''VII'', 20), (''IX'', 135), (''X'', 255), (''TF'', tf)],
           [(''at_factor'', 1), (''xa_inhibition'', 1), (''iia_inhibition'', 1)])"
  by (simp add: simulate_setup_def dict_setitem_def baseline_getitem Let_def)

lemma setup_ffp:
  "simulate_setup CoagulationSimulator ''ffp'' tf =
     Some ([(''II'', 1680), (''V'', 24), (''VII'', 12), (''VIII'', 84 / 100), (''IX'', 108),
            (''X'', 204), (''XI'', 36), (''Fbg'', 10800), (''TF'', tf)],
           [(''at_factor'', 1), (''xa_inhibition'', 1), (''iia_inhibition'', 1)])"
  by (simp add: simulate_setup_def dict_setitem_def baseline_getitem baseline_contains Let_def)

lemma setup_fviii:
  "simulate_setup CoagulationSimulator ''fviii_concentrate'' tf =
     Some ([(''VIII'', 7 / 10), (''TF'', tf)],
           [(''at_factor'', 1), (''xa_inhibition'', 1), (''iia_inhibition'', 1)])"
  by (simp add: simulate_setup_def dict_setitem_def Let_def)

lemma setup_fix:
  "simulate_setup CoagulationSimulator ''fix_concentrate'' tf =
     Some ([(''IX'', 90), (''TF'', tf)],
           [(''at_factor'', 1), (''xa_inhibition'', 1), (''iia_inhibition'', 1)])"
  by (simp add: simulate_setup_def dict_setitem_def Let_def)

text \<open>
  C6, as the code has it. For \<open>pcc\<close> and \<open>ffp\<close> the initial concentration of every
  factor that the scenario overrides is strictly greater than its baseline. For
  \<open>fviii_concentrate\<close> and \<open>fix_concentrate\<close> the one factor that the scenario overrides
  (\<open>VIII\<close>, \<open>IX\<close>) starts at its baseline: the second assignment of the branch sets the
  level after the concentrate, which is the normal level.
\<close>

theorem replacement_scenarios_and_baseline:
  "(\<exists>m p y0. simulate_setup CoagulationSimulator ''pcc'' tf = Some (m, p) \<and>
       get_initial_state CoagulationSimulator (Some m) = Some y0 \<and>
       map fst m = [''II'', ''VII'', ''IX'', ''X'', ''TF''] \<and>
       list_all (\<lambda>s. do { b \<leftarrow> dict_getitem (initial_concentrations CoagulationSimulator) s;
                          v \<leftarrow> component CoagulationSimulator y0 s;
                          Some (b < v) } = Some True)
         [''II'', ''VII'', ''IX'', ''X'']) \<and>
   (\<exists>m p y0. simulate_setup CoagulationSimulator ''ffp'' tf = Some (m, p) \<and>
       get_initial_state CoagulationSimulator (Some m) = Some y0 \<and>
       map fst m = [''II'', ''V'', ''VII'', ''VIII'', ''IX'', ''X'', ''XI'', ''Fbg'', ''TF''] \<and>
       list_all (\<lambda>s. do { b \<leftarrow> dict_getitem (initial_concentrations CoagulationSimulator) s;
                          v \<leftarrow> component CoagulationSimulator y0 s;
                          Some (b < v) } = Some True)
         [''II'', ''V'', ''VII'', ''VIII'', ''IX'', ''X'', ''XI'', ''Fbg'']) \<and>
   (\<exists>m p y0. simulate_setup CoagulationSimulator ''fviii_concentrate'' tf = Some (m, p) \<and>
       get_initial_state CoagulationSimulator (Some m) = Some y0 \<and>
       map fst m = [''VIII'', ''TF''] \<and>
       component CoagulationSimulator y0 ''VIII'' =
         dict_getitem (initial_concentrations CoagulationSimulator) ''VIII'') \<and>
   (\<exists>m p y0. simulate_setup CoagulationSimulator ''fix_concentrate'' tf = Some (m, p) \<and>
       get_initial_state CoagulationSimulator (Some m) = Some y0 \<and>
       map fst m = [''IX'', ''TF''] \<and>
       component CoagulationSimulator y0 ''IX'' =
         dict_getitem (initial_concentrations CoagulationSimulator) ''IX'')"
  unfolding setup_pcc setup_ffp setup_fviii setup_fix get_initial_state_value
  by (simp add: component_map baseline_getitem)

text \<open>
  C6 as stated fails for \<open>fviii_concentrate\<close>: with the default trigger dose 25 the
  initial concentration of \<open>VIII\<close> is 0.7, its baseline, not a greater value.
\<close>

theorem fviii_concentrate_is_baseline:
  "do { (m, p) \<leftarrow> simulate_setup CoagulationSimulator ''fviii_concentrate'' 25;
        y0 \<leftarrow> get_initial_state CoagulationSimulator (Some m);
        component CoagulationSimulator y0 ''VIII'' } = Some (7 / 10) \<and>
   dict_getitem (initial_concentrations CoagulationSimulator) ''VIII'' = Some (7 / 10) \<and>
   \<not> ((7 / 10 :: real) < 7 / 10)"
  unfolding setup_fviii get_initial_state_value
  by (simp add: component_map baseline_getitem)

subsection \<open>Scenario names outside the catalog\<close>

lemma setup_normal:
  "simulate_setup CoagulationSimulator ''normal'' tf =
     Some ([(''TF'', tf)],
           [(''at_factor'', 1), (''xa_inhibition'', 1), (''iia_inhibition'', 1)])"
  by (simp add: simulate_setup_def dict_setitem_def Let_def)

lemma setup_unknown:
  assumes "scn \<notin> set scenario_branches"
  shows "simulate_setup CoagulationSimulator scn tf =
     Some ([(''TF'', tf)],
           [(''at_factor'', 1), (''xa_inhibition'', 1), (''iia_inhibition'', 1)])"
  using assms
  by (simp add: simulate_setup_def scenario_branches_def dict_setitem_def Let_def)

lemma simulate_label:
  assumes "simulate_setup CoagulationSimulator scn tf = simulate_setup CoagulationSimulator scn' tf"
  shows "simulate CoagulationSimulator solve_ivp scn t_end t_points tf =
         map_option (\<lambda>r. r\<lparr>scenario := scn\<rparr>)
           (simulate CoagulationSimulator solve_ivp scn' t_end t_points tf)"
  unfolding simulate_def assms
  by (auto simp: Let_def split: Option.bind_split prod.splits)

lemma normal_y0:
  "get_initial_state CoagulationSimulator (Some [(''TF'', tf)]) =
     Some [tf, 10, 0, 375, 0, 30, 0, 90, 0, 7 / 10, 0, 170, 0, 20, 0, 1400, 0, 9000, 0, 70, 0,
           3400, 25 / 10, 65, 0, 300]"
  unfolding get_initial_state_value
  by (simp add: SPECIES_def CoagulationSimulator_def)

lemma collect_rows:
  assumes "26 \<le> length ys"
  shows "for_each SPECIES
       (\<lambda>species concentrations. do {
          idx \<leftarrow> dict_getitem (species_idx CoagulationSimulator) species;
          row \<leftarrow> list_getitem ys idx;
          Some (dict_setitem species row concentrations) })
       [] =
     Some [(''TF'', ys ! 0), (''VII'', ys ! 1), (''TF_VIIa'', ys ! 2), (''XII'', ys ! 3),
           (''XIIa'', ys ! 4), (''XI'', ys ! 5), (''XIa'', ys ! 6), (''IX'', ys ! 7),
           (''IXa'', ys ! 8), (''VIII'', ys ! 9), (''VIIIa'', ys ! 10), (''X'', ys ! 11),
           (''Xa'', ys ! 12), (''V'', ys ! 13), (''Va'', ys ! 14), (''II'', ys ! 15),
           (''IIa'', ys ! 16), (''Fbg'', ys ! 17), (''Fibrin'', ys ! 18), (''XIII'', ys ! 19),
           (''XIIIa'', ys ! 20), (''AT'', ys ! 21), (''TFPI'', ys ! 22), (''PC'', ys ! 23),
           (''APC'', ys ! 24), (''PS'', ys ! 25)]"
proof -
  have ne: "ys \<noteq> []" using assms by auto
  show ?thesis
    using assms ne
    by (simp add: SPECIES_def idx_lookup list_getitem_def dict_setitem_def)
qed

lemma np_linspace_2: "np_linspace 0 t_end 2 = Some [0, t_end]"
  by (simp add: np_linspace_def upt_rec)

lemma simulate_normal_first_sample:
  "simulate CoagulationSimulator (first_sample_solver ok) ''normal'' 600 2 25 =
     Some \<lparr> time = [0],
            concentrations =
              [(''TF'', [25]), (''VII'', [10]), (''TF_VIIa'', [0]), (''XII'', [375]),
               (''XIIa'', [0]), (''XI'', [30]), (''XIa'', [0]), (''IX'', [90]), (''IXa'', [0]),
               (''VIII'', [7 / 10]), (''VIIIa'', [0]), (''X'', [170]), (''Xa'', [0]),
               (''V'', [20]), (''Va'', [0]), (''II'', [1400]), (''IIa'', [0]),
               (''Fbg'', [9000]), (''Fibrin'', [0]), (''XIII'', [70]), (''XIIIa'', [0]),
               (''AT'', [3400]), (''TFPI'', [25 / 10]), (''PC'', [65]), (''APC'', [0]),
               (''PS'', [300])],
            scenario = ''normal'',
            parameters =
              [(''tf_concentration'', 25), (''at_factor'', 1), (''xa_inhibition'', 1),
               (''iia_inhibition'', 1), (''TF'', 25)] \<rparr>"
proof -
  show ?thesis
    by (simp add: simulate_def setup_normal normal_y0 np_linspace_2 first_sample_solver_def
        SPECIES_def idx_lookup list_getitem_def dict_merge_def dict_setitem_def)
qed

text \<open>
  C1 as stated fails. The name \<open>bogus\<close> matches no branch; with a solver that returns the
  first sample, \<open>simulate\<close> returns a result: the one of \<open>normal\<close>, under the name
  \<open>bogus\<close>.
\<close>

theorem unknown_scenario_returns_result:
  "''bogus'' \<notin> set scenario_branches \<and>
   map_option (\<lambda>r. (time r, scenario r, parameters r, dict_getitem (concentrations r) ''TF'',
                     dict_getitem (concentrations r) ''II''))
     (simulate CoagulationSimulator (first_sample_solver True) ''bogus'' 600 2 25) =
   Some ([0], ''bogus'',
         [(''tf_concentration'', 25), (''at_factor'', 1), (''xa_inhibition'', 1),
          (''iia_inhibition'', 1), (''TF'', 25)],
         Some [25], Some [1400]) \<and>
   map_option (\<lambda>r. r\<lparr>scenario := ''normal''\<rparr>)
     (simulate CoagulationSimulator (first_sample_solver True) ''bogus'' 600 2 25) =
   simulate CoagulationSimulator (first_sample_solver True) ''normal'' 600 2 25"
proof -
  have nb: "''bogus'' \<notin> set scenario_branches" by (simp add: scenario_branches_def)
  have eq: "simulate_setup CoagulationSimulator ''bogus'' 25 =
            simulate_setup CoagulationSimulator ''normal'' 25"
    unfolding setup_unknown[OF nb] setup_normal by (rule refl)
  show ?thesis
    using nb
    by (simp add: simulate_label[OF eq] simulate_normal_first_sample dict_getitem_def)
qed

text \<open>
  C1, as the code has it. For every scenario name that matches none of the names that
  \<open>simulate\<close> compares with, no exception is raised by the scenario part: the overrides
  are the trigger dose alone and the modifiers have their defaults, as for \<open>normal\<close>, and
  with any solver the run is the run of \<open>normal\<close>, the result carrying the given name in
  its \<open>scenario\<close> field.
\<close>

theorem unknown_scenario_runs_as_normal:
  assumes "scn \<notin> set scenario_branches"
  shows "simulate_setup CoagulationSimulator scn tf =
           Some ([(''TF'', tf)],
                 [(''at_factor'', 1), (''xa_inhibition'', 1), (''iia_inhibition'', 1)]) \<and>
         simulate_setup CoagulationSimulator scn tf =
           simulate_setup CoagulationSimulator ''normal'' tf \<and>
         simulate CoagulationSimulator solve_ivp scn t_end t_points tf =
           map_option (\<lambda>r. r\<lparr>scenario := scn\<rparr>)
             (simulate CoagulationSimulator solve_ivp ''normal'' t_end t_points tf)"
proof -
  have eq: "simulate_setup CoagulationSimulator scn tf =
            simulate_setup CoagulationSimulator ''normal'' tf"
    unfolding setup_unknown[OF assms] setup_normal by (rule refl)
  from simulate_label[OF eq] eq setup_unknown[OF assms] show ?thesis by simp
qed

theorem unknown_scenario_runs_as_normal_witness:
  "''no_such_scenario'' \<notin> set scenario_branches \<and>
   simulate_setup CoagulationSimulator ''no_such_scenario'' 25 =
     Some ([(''TF'', 25)],
           [(''at_factor'', 1), (''xa_inhibition'', 1), (''iia_inhibition'', 1)]) \<and>
   simulate_setup CoagulationSimulator ''no_such_scenario'' 25 =
     simulate_setup CoagulationSimulator ''normal'' 25 \<and>
   simulate CoagulationSimulator (first_sample_solver True) ''no_such_scenario'' 600 2 25 =
     map_option (\<lambda>r. r\<lparr>scenario := ''no_such_scenario''\<rparr>)
       (simulate CoagulationSimulator (first_sample_solver True) ''normal'' 600 2 25)"
proof -
  have nb: "''no_such_scenario'' \<notin> set scenario_branches"
    by (simp add: scenario_branches_def)
  from unknown_scenario_runs_as_normal[OF nb, of 25 "first_sample_solver True" 600 2] nb
  show ?thesis by blast
qed

subsection \<open>A solver that does not converge\<close>

text \<open>
  C2 as stated fails. With a solver that stops after the first sample and reports
  \<open>success = False\<close>, \<open>simulate\<close> raises nothing: it returns a result with the one
  sample, of the two that were asked for.
\<close>

theorem failed_integration_returns_samples:
  "map_option (\<lambda>r. (time r, dict_getitem (concentrations r) ''II'',
                     dict_getitem (concentrations r) ''IIa''))
     (simulate CoagulationSimulator (first_sample_solver False) ''normal'' 600 2 25) =
   Some ([0], Some [1400], Some [0])"
  by (simp add: simulate_normal_first_sample dict_getitem_def)

lemma collect_rows_short:
  assumes "length ys < 26"
  shows "for_each SPECIES
       (\<lambda>species concentrations. do {
          idx \<leftarrow> dict_getitem (species_idx CoagulationSimulator) species;
          row \<leftarrow> list_getitem ys idx;
          Some (dict_setitem species row concentrations) })
       [] = None"
  using assms
  by (simp add: SPECIES_def idx_lookup list_getitem_def)

text \<open>
  C2, as the code has it. \<open>simulate\<close> does not read \<open>solution.success\<close> and raises no
  exception of its own. Whenever the solver returns an \<open>OdeResult\<close> with
  \<open>success = False\<close>: if the result has a row for each of the 26 species, \<open>simulate\<close>
  returns the \<open>SimulationResult\<close> made of the times and rows that the solver returned,
  however few the samples; if it has fewer rows, reading the missing row raises
  \<open>IndexError\<close> (\<open>None\<close>).
\<close>

theorem simulate_ignores_solver_failure:
  assumes conf: "simulate_setup CoagulationSimulator scn tf = Some (m, p)"
    and init: "get_initial_state CoagulationSimulator (Some m) = Some y0"
    and grid: "np_linspace 0 t_end t_points = Some t_eval"
    and sol: "solve_ivp (\<lambda>t y. derivatives CoagulationSimulator t y p) (0, t_end) y0 ''LSODA''
                t_eval (1 / 10 ^ 6) (1 / 10 ^ 9) = Some sol"
    and failed: "\<not> sol_success sol"
  shows "simulate CoagulationSimulator solve_ivp scn t_end t_points tf =
     (if 26 \<le> length (sol_y sol) then
        Some \<lparr> time = sol_t sol,
               concentrations =
                 [(''TF'', sol_y sol ! 0), (''VII'', sol_y sol ! 1), (''TF_VIIa'', sol_y sol ! 2),
                  (''XII'', sol_y sol ! 3), (''XIIa'', sol_y sol ! 4), (''XI'', sol_y sol ! 5),
                  (''XIa'', sol_y sol ! 6), (''IX'', sol_y sol ! 7), (''IXa'', sol_y sol ! 8),
                  (''VIII'', sol_y sol ! 9), (''VIIIa'', sol_y sol ! 10), (''X'', sol_y sol ! 11),
                  (''Xa'', sol_y sol ! 12), (''V'', sol_y sol ! 13), (''Va'', sol_y sol ! 14),
                  (''II'', sol_y sol ! 15), (''IIa'', sol_y sol ! 16), (''Fbg'', sol_y sol ! 17),
                  (''Fibrin'', sol_y sol ! 18), (''XIII'', sol_y sol ! 19),
                  (''XIIIa'', sol_y sol ! 20), (''AT'', sol_y sol ! 21),
                  (''TFPI'', sol_y sol ! 22), (''PC'', sol_y sol ! 23), (''APC'', sol_y sol ! 24),
                  (''PS'', sol_y sol ! 25)],
               scenario = scn,
               parameters = dict_merge (dict_merge [(''tf_concentration'', tf)] p) m \<rparr>
      else None)"
proof (cases "26 \<le> length (sol_y sol)")
  case True
  with conf init grid sol show ?thesis
    by (simp add: simulate_def Let_def collect_rows[OF True])
next
  case False
  then have short: "length (sol_y sol) < 26" by simp
  with conf init grid sol show ?thesis
    by (simp add: simulate_def Let_def collect_rows_short[OF short])
qed

theorem simulate_ignores_solver_failure_witness:
  "simulate CoagulationSimulator (first_sample_solver False) ''normal'' 600 2 25 =
     Some \<lparr> time = [0],
            concentrations =
              [(''TF'', [25]), (''VII'', [10]), (''TF_VIIa'', [0]), (''XII'', [375]),
               (''XIIa'', [0]), (''XI'', [30]), (''XIa'', [0]), (''IX'', [90]), (''IXa'', [0]),
               (''VIII'', [7 / 10]), (''VIIIa'', [0]), (''X'', [170]), (''Xa'', [0]),
               (''V'', [20]), (''Va'', [0]), (''II'', [1400]), (''IIa'', [0]),
               (''Fbg'', [9000]), (''Fibrin'', [0]), (''XIII'', [70]), (''XIIIa'', [0]),
               (''AT'', [3400]), (''TFPI'', [25 / 10]), (''PC'', [65]), (''APC'', [0]),
               (''PS'', [300])],
            scenario = ''normal'',
            parameters =
              [(''tf_concentration'', 25), (''at_factor'', 1), (''xa_inhibition'', 1),
               (''iia_inhibition'', 1), (''TF'', 25)] \<rparr> \<and>
   simulate CoagulationSimulator
     (\<lambda>fn t_span y0 method t_eval rtol atol.
        Some \<lparr> sol_t = [], sol_y = [], sol_success = False \<rparr>)
     ''normal'' 600 2 25 = None"
proof -
  let ?p = "[(''at_factor'', 1), (''xa_inhibition'', 1), (''iia_inhibition'', 1::real)]"
  let ?y0 = "[25, 10, 0, 375, 0, 30, 0, 90, 0, 7 / 10, 0, 170, 0, 20, 0, 1400, 0, 9000, 0, 70,
              0, 3400, 25 / 10, 65, 0, 300::real]"
  let ?sol = "\<lparr> sol_t = [0], sol_y = map (\<lambda>v. [v]) ?y0, sol_success = False \<rparr>"
  let ?none = "\<lparr> sol_t = [], sol_y = [], sol_success = False \<rparr>"
  let ?sv = "\<lambda>(fn::rhs) (t_span::real \<times> real) (y0::real list) (method::string)
               (t_eval::real list) (rtol::real) (atol::real). Some ?none"
  have conf: "simulate_setup CoagulationSimulator ''normal'' 25 = Some ([(''TF'', 25)], ?p)"
    by (rule setup_normal)
  have init: "get_initial_state CoagulationSimulator (Some [(''TF'', 25)]) = Some ?y0"
    by (rule normal_y0)
  have grid: "np_linspace 0 600 2 = Some [0, 600]"
    by (rule np_linspace_2)
  have sol: "first_sample_solver False (\<lambda>t y. derivatives CoagulationSimulator t y ?p) (0, 600)
               ?y0 ''LSODA'' [0, 600] (1 / 10 ^ 6) (1 / 10 ^ 9) = Some ?sol"
    by (simp add: first_sample_solver_def)
  have failed: "\<not> sol_success ?sol" by simp
  have sol': "?sv (\<lambda>t y. derivatives CoagulationSimulator t y ?p) (0, 600)
               ?y0 ''LSODA'' [0, 600] (1 / 10 ^ 6) (1 / 10 ^ 9) = Some ?none"
    by simp
  have failed': "\<not> sol_success ?none" by simp
  from simulate_ignores_solver_failure[where solve_ivp = "first_sample_solver False",
      OF conf init grid sol failed]
    simulate_ignores_solver_failure[where solve_ivp = ?sv, OF conf init grid sol' failed']
  show ?thesis
    by (simp add: dict_merge_def dict_setitem_def)
qed

end
